theory Spec2Isabelle
  imports Main "HOL-Library.Multiset"
begin

section \<open>Data model (models.py)\<close>

text \<open>
  The tables of models.py, one record per mapped class and one list of rows per table.
  Only the columns that some operation of stock_repository.py or stock_service.py reads
  or writes are kept (surrogate ids of the order tables, prices, customer data and
  timestamps are never read back). Integer columns are Python/SQL integers, modelled as
  \<open>int\<close>; primary keys as \<open>nat\<close>. A Python value that may be \<open>None\<close> is an
  \<open>option\<close>.

  Row order in a list stands for the order in which the database returns rows.
  Uniqueness of keys is not assumed: the functions below behave as the queries do on any
  table contents.
\<close>

record Product =
  product_id :: nat
  product_sku :: string
  product_is_active :: bool

record Stock =
  stock_id :: nat
  stock_name :: string
  stock_is_active :: bool

record StockInventory =
  inv_product_id :: nat
  inv_stock_id :: nat
  inv_quantity :: int
  inv_is_active :: bool

record KaspiOrder =
  ko_order_id :: string
  ko_order_code :: string
  ko_stock_name :: string
  ko_status :: string
  ko_invoice_generated :: bool
  ko_is_canceled :: bool

record KaspiSoldProduct =
  ksp_order_id :: string
  ksp_order_code :: string
  ksp_product_code :: string
  ksp_product_name :: string
  ksp_quantity :: int
  ksp_waybill :: "string option"

record KaspiCanceledOrder =
  kco_order_id :: string
  kco_order_code :: string
  kco_product_code :: string

record database =
  products :: "Product list"
  stocks :: "Stock list"
  stock_inventory :: "StockInventory list"
  kaspi_orders :: "KaspiOrder list"
  kaspi_sold_products :: "KaspiSoldProduct list"
  kaspi_canceled_orders :: "KaspiCanceledOrder list"

text \<open>
  The exceptions that the modelled code can raise on its own data:
  \<open>scalar_one_or_none()\<close> raises \<open>MultipleResultsFound\<close> on more than one row,
  a NOT NULL or UNIQUE violation at commit raises \<open>IntegrityError\<close> (both are
  \<open>SQLAlchemyError\<close>s), and slicing \<open>None\<close> raises \<open>TypeError\<close>.
  Connectivity failures of the storage backend are not modelled.
\<close>

datatype error = MultipleResultsFound | IntegrityError | TypeError

definition scalar_one_or_none :: "'a list \<Rightarrow> error + 'a option" where
  "scalar_one_or_none rows =
     (case rows of
        [] \<Rightarrow> Inr None
      | [r] \<Rightarrow> Inr (Some r)
      | _ \<Rightarrow> Inl MultipleResultsFound)"

definition first_row :: "'a list \<Rightarrow> 'a option" where
  "first_row rows = (case rows of [] \<Rightarrow> None | r # _ \<Rightarrow> Some r)"

section \<open>Repository (stock_repository.py)\<close>

text \<open>
  The \<open>async_retry\<close> decorator re-runs a call on the listed exceptions and re-raises
  the last one after the retries. The modelled storage answers the same query the same
  way, so a decorated function raises exactly when its body does.

  Every \<open>async with SessionLocalAsync() as session\<close> block is a session of its own.
  What a session changes (an attribute assigned on a loaded row, an object added) reaches
  the tables when that session calls \<open>commit\<close>; a block that is left without
  \<open>commit\<close> is rolled back, and the tables are as they were. Row locks
  (\<open>for_update\<close>) have no effect in a model that runs one call at a time.
\<close>

definition rollback :: "database \<Rightarrow> database \<Rightarrow> database" where
  "rollback stored pending = stored"

definition get_product_id :: "database \<Rightarrow> string \<Rightarrow> nat option" where
  "get_product_id db product_code =
     (case first_row [product_id p. p \<leftarrow> products db,
                       product_sku p = product_code \<and> product_is_active p] of
        None \<Rightarrow> None
      | Some i \<Rightarrow> if i = 0 then None else Some i)"

definition stock_quantity_rows :: "database \<Rightarrow> string \<Rightarrow> string option \<Rightarrow> int list" where
  "stock_quantity_rows db product_code sname =
     [inv_quantity si.
        si \<leftarrow> stock_inventory db,
        p \<leftarrow> products db, product_id p = inv_product_id si,
        s \<leftarrow> stocks db, stock_id s = inv_stock_id si,
        product_sku p = product_code \<and> Some (stock_name s) = sname
          \<and> inv_is_active si \<and> stock_is_active s]"

definition get_stock_quantity :: "database \<Rightarrow> string \<Rightarrow> string option \<Rightarrow> int" where
  "get_stock_quantity db product_code sname =
     (case first_row (stock_quantity_rows db product_code sname) of
        None \<Rightarrow> 0
      | Some q \<Rightarrow> q)"

definition active_stocks :: "database \<Rightarrow> string option \<Rightarrow> Stock list" where
  "active_stocks db sname =
     [s. s \<leftarrow> stocks db, Some (stock_name s) = sname \<and> stock_is_active s]"

definition active_products :: "database \<Rightarrow> string \<Rightarrow> Product list" where
  "active_products db product_code =
     [p. p \<leftarrow> products db, product_sku p = product_code \<and> product_is_active p]"

definition inventory_match :: "Product \<Rightarrow> Stock \<Rightarrow> StockInventory \<Rightarrow> bool" where
  "inventory_match p s si \<longleftrightarrow>
     inv_product_id si = product_id p \<and> inv_stock_id si = stock_id s \<and> inv_is_active si"

definition active_inventory :: "database \<Rightarrow> Product \<Rightarrow> Stock \<Rightarrow> StockInventory list" where
  "active_inventory db p s = filter (inventory_match p s) (stock_inventory db)"

text \<open>
  The assignment \<open>inventory.quantity = new_quantity\<close> on the loaded row, as the state
  pending in the session that loaded it; it is stored only if that session commits.
\<close>

definition set_quantity :: "database \<Rightarrow> Product \<Rightarrow> Stock \<Rightarrow> int \<Rightarrow> database" where
  "set_quantity db p s new_quantity =
     db\<lparr>stock_inventory :=
          map (\<lambda>si. if inventory_match p s si then si\<lparr>inv_quantity := new_quantity\<rparr> else si)
              (stock_inventory db)\<rparr>"

text \<open>
  \<open>update_stock_quantity_and_log(product_code, new_quantity, order_quantity, operation,
  stock_name)\<close>: the three look-ups in the source's order, each a
  \<open>scalar_one_or_none()\<close>, then the sign check, then the assignment
  \<open>inventory.quantity = new_quantity\<close> (\<open>set_quantity\<close>, the state pending in the
  session). Each early \<open>return\<close> (after a warning) gives back the database as it was.
  The function opens its own session and its block ends right after the assignment,
  without \<open>commit\<close>: the pending state is rolled back.
\<close>

definition update_stock_quantity_and_log ::
  "database \<Rightarrow> string \<Rightarrow> int \<Rightarrow> int \<Rightarrow> string \<Rightarrow> string option \<Rightarrow> error + database" where
  "update_stock_quantity_and_log db product_code new_quantity order_quantity operation sname =
     (case scalar_one_or_none (active_stocks db sname) of
        Inl e \<Rightarrow> Inl e
      | Inr None \<Rightarrow> Inr db
      | Inr (Some stock) \<Rightarrow>
          (case scalar_one_or_none (active_products db product_code) of
             Inl e \<Rightarrow> Inl e
           | Inr None \<Rightarrow> Inr db
           | Inr (Some product) \<Rightarrow>
               (case scalar_one_or_none (active_inventory db product stock) of
                  Inl e \<Rightarrow> Inl e
                | Inr None \<Rightarrow> Inr db
                | Inr (Some inventory) \<Rightarrow>
                    if new_quantity < 0 then Inr db
                    else Inr (rollback db (set_quantity db product stock new_quantity)))))"

definition is_order_processed :: "database \<Rightarrow> string option \<Rightarrow> bool" where
  "is_order_processed db order_id =
     (\<exists>ko \<in> set (kaspi_orders db). Some (ko_order_id ko) = order_id)"

definition is_order_canceled :: "database \<Rightarrow> string \<Rightarrow> bool" where
  "is_order_canceled db order_id =
     (case first_row [ko_is_canceled ko. ko \<leftarrow> kaspi_orders db, ko_order_id ko = order_id] of
        None \<Rightarrow> False
      | Some b \<Rightarrow> b)"

definition mark_order_as_canceled :: "database \<Rightarrow> string \<Rightarrow> database" where
  "mark_order_as_canceled db order_id =
     db\<lparr>kaspi_orders :=
          map (\<lambda>ko. if ko_order_id ko = order_id then ko\<lparr>ko_is_canceled := True\<rparr> else ko)
              (kaspi_orders db)\<rparr>"

text \<open>
  A line item of the marketplace feed (\<open>entry["attributes"]\<close>): the offer's code and
  name and the quantity.
\<close>

record entry =
  entry_code :: string
  entry_name :: string
  entry_quantity :: int

definition sold_product :: "string \<Rightarrow> string \<Rightarrow> entry \<Rightarrow> KaspiSoldProduct" where
  "sold_product order_id order_code e =
     \<lparr>ksp_order_id = order_id, ksp_order_code = order_code,
      ksp_product_code = entry_code e, ksp_product_name = entry_name e,
      ksp_quantity = entry_quantity e, ksp_waybill = None\<rparr>"

text \<open>
  \<open>save_order\<close>: one commit inserting the header and the line items. The columns
  \<open>order_id\<close>, \<open>order_code\<close> and \<open>status\<close> are NOT NULL and \<open>order_id\<close> is
  UNIQUE, so a \<open>None\<close> or a duplicate id makes the commit raise.
\<close>

definition save_order ::
  "database \<Rightarrow> string option \<Rightarrow> string option \<Rightarrow> string option \<Rightarrow> string \<Rightarrow> entry list
     \<Rightarrow> error + database" where
  "save_order db order_id order_code status sname entries =
     (case (order_id, order_code, status) of
        (Some oid, Some code, Some st) \<Rightarrow>
          if \<exists>ko \<in> set (kaspi_orders db). ko_order_id ko = oid then Inl IntegrityError
          else Inr (db\<lparr>kaspi_orders := kaspi_orders db @
                          [\<lparr>ko_order_id = oid, ko_order_code = code, ko_stock_name = sname,
                            ko_status = st, ko_invoice_generated = False,
                            ko_is_canceled = False\<rparr>],
                        kaspi_sold_products := kaspi_sold_products db @
                          map (sold_product oid code) entries\<rparr>)
      | _ \<Rightarrow> Inl IntegrityError)"

definition get_order_products :: "database \<Rightarrow> string \<Rightarrow> (string \<times> int \<times> string) list" where
  "get_order_products db order_id =
     [(ksp_product_code r, ksp_quantity r, ksp_product_name r).
        r \<leftarrow> kaspi_sold_products db, ksp_order_id r = order_id]"

definition save_canceled_order :: "database \<Rightarrow> string \<Rightarrow> string \<Rightarrow> KaspiCanceledOrder" where
  "save_canceled_order db order_id product_code =
     \<lparr>kco_order_id = order_id,
      kco_order_code =
        (case first_row [ko_order_code ko. ko \<leftarrow> kaspi_orders db, ko_order_id ko = order_id] of
           None \<Rightarrow> [] | Some c \<Rightarrow> c),
      kco_product_code = product_code\<rparr>"

text \<open>
  The stock-name query of \<open>process_product_cancellation\<close>:
  \<^verbatim>\<open>SELECT stock_name FROM kaspi_orders ko JOIN kaspi_sold_products ksp
     ON ko.order_id = ksp.order_id WHERE ksp.product_code = :product_code LIMIT 1\<close>.
  Its only parameter is the product code. \<open>stock_name_rows\<close> are the rows of the join;
  \<open>LIMIT 1\<close> without \<open>ORDER BY\<close> returns one of them, which one is the database's
  choice. The model returns the first in the order of the lists, so a statement about
  the row returned is made for both orders of the rows.
\<close>

definition stock_name_rows :: "database \<Rightarrow> string \<Rightarrow> string list" where
  "stock_name_rows db product_code =
     [ko_stock_name ko.
        ko \<leftarrow> kaspi_orders db, ksp \<leftarrow> kaspi_sold_products db,
        ko_order_id ko = ksp_order_id ksp \<and> ksp_product_code ksp = product_code]"

definition stock_name_query :: "database \<Rightarrow> string \<Rightarrow> string option" where
  "stock_name_query db product_code = first_row (stock_name_rows db product_code)"

text \<open>
  \<open>process_product_cancellation\<close>. \<open>restore_call\<close> gives the arguments with which it
  calls \<open>update_stock_quantity_and_log\<close>, or \<open>None\<close> when it returns before that call
  (product not found, or order already canceled). The cancellation record is added to
  the function's own session, which is committed only after the call: an early return
  or an exception leaves no record.
\<close>

definition restore_call ::
  "database \<Rightarrow> string \<Rightarrow> int \<Rightarrow> string \<Rightarrow> (string \<times> int \<times> int \<times> string \<times> string option) option"
  where
  "restore_call db product_code quantity order_id =
     (let sname = stock_name_query db product_code
      in case get_product_id db product_code of
           None \<Rightarrow> None
         | Some pid \<Rightarrow>
             if is_order_canceled db order_id then None
             else
               (let current_quantity = get_stock_quantity db product_code sname;
                    new_quantity = current_quantity + quantity
                in Some (product_code, new_quantity, quantity, ''return'', sname)))"

definition process_product_cancellation ::
  "database \<Rightarrow> string \<Rightarrow> int \<Rightarrow> string \<Rightarrow> error + database" where
  "process_product_cancellation db product_code quantity order_id =
     (let canceled_order = save_canceled_order db order_id product_code
      in case restore_call db product_code quantity order_id of
           None \<Rightarrow> Inr db
         | Some (code, new_quantity, returned_quantity, operation, sname) \<Rightarrow>
             (case update_stock_quantity_and_log db code new_quantity returned_quantity
                     operation sname of
                Inl e \<Rightarrow> Inl e
              | Inr db' \<Rightarrow>
                  Inr (db'\<lparr>kaspi_canceled_orders :=
                             kaspi_canceled_orders db' @ [canceled_order]\<rparr>)))"

section \<open>The marketplace client (kaspi.py) as an environment\<close>

text \<open>
  An order of the feed: the fields of the JSON object that the service reads.
  Every function of kaspi.py catches its own exceptions and returns \<open>[]\<close> or
  \<open>False\<close>, so a call never raises. The marketplace is an abstract world \<open>'w\<close>:
  each call reads it and may change it.
\<close>

record order =
  o_id :: "string option"
  o_code :: "string option"
  o_status :: "string option"
  o_pickupPointId :: "string option"
  o_waybill :: "string option"

record 'w kaspi =
  get_new_orders :: "'w \<Rightarrow> order list \<times> 'w"
  get_kaspi_delivery :: "'w \<Rightarrow> order list \<times> 'w"
  get_new_archive :: "'w \<Rightarrow> order list \<times> 'w"
  get_returned_archive :: "'w \<Rightarrow> order list \<times> 'w"
  get_order_entries :: "string option \<Rightarrow> 'w \<Rightarrow> entry list \<times> 'w"
  accept_order :: "string \<Rightarrow> string \<Rightarrow> 'w \<Rightarrow> bool \<times> 'w"
  create_invoice :: "string option \<Rightarrow> 'w \<Rightarrow> bool \<times> 'w"

section \<open>Service (stock_service.py)\<close>

text \<open>Python's \<open>s[-3:]\<close>: the last three characters, or all of a shorter string.\<close>

definition last3 :: "string \<Rightarrow> string" where
  "last3 s = drop (length s - 3) s"

text \<open>The availability pass: \<open>True\<close> when the loop reaches its end.\<close>

fun check_entries :: "database \<Rightarrow> string \<Rightarrow> entry list \<Rightarrow> bool" where
  "check_entries db sname [] = True"
| "check_entries db sname (e # es) =
     (if get_stock_quantity db (entry_code e) (Some sname) < entry_quantity e then False
      else check_entries db sname es)"

text \<open>
  The commit pass: for every line item the quantity is read again and the difference is
  handed to \<open>update_stock_quantity_and_log\<close>. An exception leaves the loop; the
  caller's handler turns it into \<open>False\<close>.
\<close>

fun commit_entries :: "database \<Rightarrow> string \<Rightarrow> entry list \<Rightarrow> error option \<times> database" where
  "commit_entries db sname [] = (None, db)"
| "commit_entries db sname (e # es) =
     (let current_quantity = get_stock_quantity db (entry_code e) (Some sname);
          new_quantity = current_quantity - entry_quantity e
      in case update_stock_quantity_and_log db (entry_code e) new_quantity (entry_quantity e)
                ''sales'' (Some sname) of
           Inl err \<Rightarrow> (Some err, db)
         | Inr db' \<Rightarrow> commit_entries db' sname es)"

text \<open>
  \<open>process_single_order\<close>. The body is one \<open>try\<close> block whose handler logs the
  exception and returns \<open>False\<close>: slicing a missing pickup point raises
  \<open>TypeError\<close> before anything is written, an exception of the commit pass or of
  \<open>save_order\<close> leaves the tables as they are at that point. The line items of the
  feed are taken as well-formed (code and quantity present).
\<close>

definition process_single_order ::
  "'w kaspi \<Rightarrow> database \<Rightarrow> 'w \<Rightarrow> order \<Rightarrow> bool \<times> database \<times> 'w" where
  "process_single_order K db w ord =
     (if is_order_processed db (o_id ord) then (False, db, w)
      else
        (case get_order_entries K (o_id ord) w of
           (entries, w1) \<Rightarrow>
             (case o_pickupPointId ord of
                None \<Rightarrow> (False, db, w1)
              | Some pp \<Rightarrow>
                  (let sname = last3 pp in
                   if \<not> check_entries db sname entries then (False, db, w1)
                   else
                     (case commit_entries db sname entries of
                        (Some err, db1) \<Rightarrow> (False, db1, w1)
                      | (None, db1) \<Rightarrow>
                          (case save_order db1 (o_id ord) (o_code ord) (o_status ord)
                                  sname entries of
                             Inl err \<Rightarrow> (False, db1, w1)
                           | Inr db2 \<Rightarrow>
                               (case create_invoice K (o_id ord) w1 of
                                  (invoice_result, w2) \<Rightarrow>
                                    (invoice_result, db2, w2))))))))"

text \<open>
  \<open>process_orders\<close>. The tasks of \<open>asyncio.gather\<close> are modelled as run one after
  the other in the order of the batch. The source appends an id when its task completes,
  so the order of the ids in the two lists is the model's; which ids they hold, and how
  often, is not.
\<close>

record orders_result =
  or_processed :: nat
  or_success :: "string option list"
  or_failed :: "string option list"

fun process_batch ::
  "'w kaspi \<Rightarrow> order list \<Rightarrow> string option list \<Rightarrow> string option list \<Rightarrow> database \<Rightarrow> 'w
     \<Rightarrow> string option list \<times> string option list \<times> database \<times> 'w" where
  "process_batch K [] success failed db w = (success, failed, db, w)"
| "process_batch K (ord # orders) success failed db w =
     (case process_single_order K db w ord of
        (result, db1, w1) \<Rightarrow>
          if result then process_batch K orders (success @ [o_id ord]) failed db1 w1
          else process_batch K orders success (failed @ [o_id ord]) db1 w1)"

definition process_orders :: "'w kaspi \<Rightarrow> database \<Rightarrow> 'w \<Rightarrow> orders_result \<times> database \<times> 'w" where
  "process_orders K db w =
     (case get_kaspi_delivery K w of
        (orders, w1) \<Rightarrow>
          if orders = [] then (\<lparr>or_processed = 0, or_success = [], or_failed = []\<rparr>, db, w1)
          else
            (case process_batch K orders [] [] db w1 of
               (success, failed, db2, w2) \<Rightarrow>
                 (\<lparr>or_processed = length success, or_success = success, or_failed = failed\<rparr>,
                  db2, w2)))"

text \<open>Python truthiness of a string that may be \<open>None\<close>.\<close>

definition truthy :: "string option \<Rightarrow> bool" where
  "truthy s = (case s of None \<Rightarrow> False | Some x \<Rightarrow> x \<noteq> [])"

text \<open>
  \<open>save_waybill_links\<close>: for an order of the delivery batch that carries a waybill, the
  two UPDATE statements and the commit. \<open>RETURNING\<close> yields one row per updated order
  row, each holding the value just written.
\<close>

definition set_waybill :: "database \<Rightarrow> string option \<Rightarrow> string option \<Rightarrow> database" where
  "set_waybill db order_id waybill =
     db\<lparr>kaspi_sold_products :=
          map (\<lambda>r. if Some (ksp_order_id r) = order_id then r\<lparr>ksp_waybill := waybill\<rparr> else r)
              (kaspi_sold_products db)\<rparr>"

definition set_invoice_generated :: "database \<Rightarrow> string option \<Rightarrow> bool list \<times> database" where
  "set_invoice_generated db order_id =
     ([True. ko \<leftarrow> kaspi_orders db, Some (ko_order_id ko) = order_id],
      db\<lparr>kaspi_orders :=
          map (\<lambda>ko. if Some (ko_order_id ko) = order_id
                     then ko\<lparr>ko_invoice_generated := True\<rparr> else ko)
              (kaspi_orders db)\<rparr>)"

fun waybill_batch ::
  "order list \<Rightarrow> string option list \<Rightarrow> database \<Rightarrow> string option list \<times> database" where
  "waybill_batch [] updated_ids db = (updated_ids, db)"
| "waybill_batch (ord # orders) updated_ids db =
     (if \<not> truthy (o_waybill ord) then waybill_batch orders updated_ids db
      else
        (case set_invoice_generated (set_waybill db (o_id ord) (o_waybill ord)) (o_id ord) of
           (invoice_row, db1) \<Rightarrow>
             if first_row invoice_row = Some True
             then waybill_batch orders (updated_ids @ [o_id ord]) db1
             else waybill_batch orders updated_ids db1))"

definition save_waybill_links ::
  "'w kaspi \<Rightarrow> database \<Rightarrow> 'w \<Rightarrow> string option list \<times> database \<times> 'w" where
  "save_waybill_links K db w =
     (case get_kaspi_delivery K w of
        (orders, w1) \<Rightarrow>
          if orders = [] then ([], db, w1)
          else (case waybill_batch orders [] db of (updated_ids, db1) \<Rightarrow> (updated_ids, db1, w1)))"

text \<open>
  \<open>cancel_single_order\<close>. The loop over the persisted line items stops at an exception
  with the writes made so far; the handler logs it and returns, so the order is then not
  marked.
\<close>

fun cancel_products ::
  "database \<Rightarrow> string \<Rightarrow> (string \<times> int \<times> string) list \<Rightarrow> error option \<times> database" where
  "cancel_products db order_id [] = (None, db)"
| "cancel_products db order_id ((product_code, quantity, product_name) # rest) =
     (case process_product_cancellation db product_code quantity order_id of
        Inl err \<Rightarrow> (Some err, db)
      | Inr db' \<Rightarrow> cancel_products db' order_id rest)"

definition cancel_single_order :: "database \<Rightarrow> order \<Rightarrow> database" where
  "cancel_single_order db ord =
     (case o_id ord of
        None \<Rightarrow> db
      | Some order_id \<Rightarrow>
          if order_id = [] then db
          else if \<not> is_order_processed db (Some order_id) then db
          else if is_order_canceled db order_id then db
          else
            (let rows = get_order_products db order_id in
             if rows = [] then db
             else
               (case cancel_products db order_id rows of
                  (Some err, db1) \<Rightarrow> db1
                | (None, db1) \<Rightarrow> mark_order_as_canceled db1 order_id)))"

text \<open>
  The two archive passes. As in \<open>process_orders\<close>, the tasks are run in the order of
  the batch, while the source appends an id when its task completes: the ids returned
  are meant as a multiset, their order is the model's. \<open>cancel_single_order\<close> handles
  its own exceptions, and the id of the order is appended afterwards whenever it is
  non-empty.
\<close>

fun cancel_batch :: "order list \<Rightarrow> string list \<Rightarrow> database \<Rightarrow> string list \<times> database" where
  "cancel_batch [] canceled_ids db = (canceled_ids, db)"
| "cancel_batch (ord # orders) canceled_ids db =
     (let db1 = cancel_single_order db ord in
      case o_id ord of
        None \<Rightarrow> cancel_batch orders canceled_ids db1
      | Some order_id \<Rightarrow>
          if order_id = [] then cancel_batch orders canceled_ids db1
          else cancel_batch orders (canceled_ids @ [order_id]) db1)"

definition cancel_orders_from_archive ::
  "'w kaspi \<Rightarrow> database \<Rightarrow> 'w \<Rightarrow> string list \<times> database \<times> 'w" where
  "cancel_orders_from_archive K db w =
     (case get_new_archive K w of
        (archived_orders, w1) \<Rightarrow>
          if archived_orders = [] then ([], db, w1)
          else (case cancel_batch archived_orders [] db of
                  (canceled_ids, db1) \<Rightarrow> (canceled_ids, db1, w1)))"

definition cancel_orders_from_returned_archive ::
  "'w kaspi \<Rightarrow> database \<Rightarrow> 'w \<Rightarrow> string list \<times> database \<times> 'w" where
  "cancel_orders_from_returned_archive K db w =
     (case get_returned_archive K w of
        (returned_orders, w1) \<Rightarrow>
          if returned_orders = [] then ([], db, w1)
          else (case cancel_batch returned_orders [] db of
                  (canceled_ids, db1) \<Rightarrow> (canceled_ids, db1, w1)))"

text \<open>
  \<open>process_new_orders\<close>. The \<open>skipped\<close> list receives the whole order when id or code
  is missing and the id when the status is not the expected one.
\<close>

datatype skipped_item = SkippedOrder order | SkippedId string

record new_orders_result =
  nr_processed :: nat
  nr_success :: "string list"
  nr_failed :: "string list"
  nr_skipped :: "skipped_item list"

definition max_retries :: nat where
  "max_retries = 2"

function accept_loop ::
  "'w kaspi \<Rightarrow> string \<Rightarrow> string \<Rightarrow> nat \<Rightarrow> bool \<Rightarrow> string list \<Rightarrow> string list \<Rightarrow> 'w
     \<Rightarrow> string list \<times> string list \<times> 'w" where
  "accept_loop K order_id order_code attempt accepted success failed w =
     (if attempt \<le> max_retries \<and> \<not> accepted then
        (case accept_order K order_id order_code w of
           (result, w1) \<Rightarrow>
             if result
             then accept_loop K order_id order_code attempt True (success @ [order_id]) failed w1
             else accept_loop K order_id order_code (attempt + 1) accepted success
                    (if attempt + 1 > max_retries then failed @ [order_id] else failed) w1)
      else (success, failed, w))"
  by pat_completeness auto
termination
  by (relation "measure (\<lambda>(K, order_id, order_code, attempt, accepted, success, failed, w).
                   (max_retries + 1 - attempt) + (if accepted then 0 else 1))")
     (auto simp: max_retries_def)

fun accept_batch ::
  "'w kaspi \<Rightarrow> order list \<Rightarrow> new_orders_result \<Rightarrow> 'w \<Rightarrow> new_orders_result \<times> 'w" where
  "accept_batch K [] r w = (r, w)"
| "accept_batch K (ord # orders) r w =
     (case (o_id ord, o_code ord) of
        (Some order_id, Some order_code) \<Rightarrow>
          if order_id = [] \<or> order_code = []
          then accept_batch K orders (r\<lparr>nr_skipped := nr_skipped r @ [SkippedOrder ord]\<rparr>) w
          else if truthy (o_status ord) \<and> o_status ord \<noteq> Some ''APPROVED_BY_BANK''
          then accept_batch K orders (r\<lparr>nr_skipped := nr_skipped r @ [SkippedId order_id]\<rparr>) w
          else
            (case accept_loop K order_id order_code 0 False (nr_success r) (nr_failed r) w of
               (success, failed, w1) \<Rightarrow>
                 accept_batch K orders
                   (r\<lparr>nr_processed := nr_processed r + 1, nr_success := success,
                      nr_failed := failed\<rparr>) w1)
      | _ \<Rightarrow> accept_batch K orders (r\<lparr>nr_skipped := nr_skipped r @ [SkippedOrder ord]\<rparr>) w)"

definition process_new_orders :: "'w kaspi \<Rightarrow> 'w \<Rightarrow> new_orders_result \<times> 'w" where
  "process_new_orders K w =
     (case get_new_orders K w of
        (new_orders, w1) \<Rightarrow>
          if new_orders = []
          then (\<lparr>nr_processed = 0, nr_success = [], nr_failed = [], nr_skipped = []\<rparr>, w1)
          else accept_batch K new_orders
                 \<lparr>nr_processed = 0, nr_success = [], nr_failed = [], nr_skipped = []\<rparr> w1)"

section \<open>Orchestration (main.py)\<close>

text \<open>
  The run is observed through the messages that \<open>main\<close> itself logs, one constructor
  per \<open>logger\<close> call of main.py, in the order they are emitted. The sleep between
  attempts is not modelled.
\<close>

datatype event =
    ScriptStarted
  | NewOrdersResult new_orders_result
  | NewOrdersError new_orders_result
  | ProcessOrdersAttempt nat orders_result
  | CancelArchiveAttempt nat "string list"
  | CanceledByCustomer
  | ProcessOrdersExhausted
  | SaveWaybillAttempt nat "string option list"
  | CancelArchiveWaybillAttempt nat "string list"
  | CanceledByCustomerWaybill
  | SaveWaybillExhausted
  | NoNewOrders
  | ScriptFinished

text \<open>How a \<open>for ... else\<close> loop of \<open>main\<close> ends.\<close>

datatype loop_exit = Break | Return | Exhausted

definition MAX_ATTEMPTS :: nat where
  "MAX_ATTEMPTS = 5"

definition any_in :: "string list \<Rightarrow> string list \<Rightarrow> bool" where
  "any_in new_order_ids canceled_ids = (\<exists>order_id \<in> set new_order_ids. order_id \<in> set canceled_ids)"

function fulfillment_attempts ::
  "'w kaspi \<Rightarrow> string list \<Rightarrow> nat \<Rightarrow> database \<Rightarrow> 'w
     \<Rightarrow> loop_exit \<times> event list \<times> database \<times> 'w" where
  "fulfillment_attempts K new_order_ids attempt db w =
     (if attempt \<le> MAX_ATTEMPTS then
        (case process_orders K db w of
           (orders_result, db1, w1) \<Rightarrow>
             if or_success orders_result \<noteq> []
             then (Break, [ProcessOrdersAttempt attempt orders_result], db1, w1)
             else
               (case cancel_orders_from_archive K db1 w1 of
                  (canceled_ids, db2, w2) \<Rightarrow>
                    if any_in new_order_ids canceled_ids
                    then (Return,
                          [ProcessOrdersAttempt attempt orders_result,
                           CancelArchiveAttempt attempt canceled_ids, CanceledByCustomer],
                          db2, w2)
                    else
                      (case fulfillment_attempts K new_order_ids (attempt + 1) db2 w2 of
                         (exit, evs, db3, w3) \<Rightarrow>
                           (exit,
                            [ProcessOrdersAttempt attempt orders_result,
                             CancelArchiveAttempt attempt canceled_ids] @ evs,
                            db3, w3))))
      else (Exhausted, [ProcessOrdersExhausted], db, w))"
  by pat_completeness auto
termination
  by (relation "measure (\<lambda>(K, new_order_ids, attempt, db, w). MAX_ATTEMPTS + 1 - attempt)")
     auto

function waybill_attempts ::
  "'w kaspi \<Rightarrow> string list \<Rightarrow> nat \<Rightarrow> database \<Rightarrow> 'w
     \<Rightarrow> loop_exit \<times> event list \<times> database \<times> 'w" where
  "waybill_attempts K new_order_ids attempt db w =
     (if attempt \<le> MAX_ATTEMPTS then
        (case save_waybill_links K db w of
           (waybill_result, db1, w1) \<Rightarrow>
             if \<exists>order_id \<in> set new_order_ids. Some order_id \<in> set waybill_result
             then (Break, [SaveWaybillAttempt attempt waybill_result], db1, w1)
             else
               (case cancel_orders_from_archive K db1 w1 of
                  (canceled_ids, db2, w2) \<Rightarrow>
                    if any_in new_order_ids canceled_ids
                    then (Return,
                          [SaveWaybillAttempt attempt waybill_result,
                           CancelArchiveWaybillAttempt attempt canceled_ids,
                           CanceledByCustomerWaybill],
                          db2, w2)
                    else
                      (case waybill_attempts K new_order_ids (attempt + 1) db2 w2 of
                         (exit, evs, db3, w3) \<Rightarrow>
                           (exit,
                            [SaveWaybillAttempt attempt waybill_result,
                             CancelArchiveWaybillAttempt attempt canceled_ids] @ evs,
                            db3, w3))))
      else (Exhausted, [SaveWaybillExhausted], db, w))"
  by pat_completeness auto
termination
  by (relation "measure (\<lambda>(K, new_order_ids, attempt, db, w). MAX_ATTEMPTS + 1 - attempt)")
     auto

definition main :: "'w kaspi \<Rightarrow> database \<Rightarrow> 'w \<Rightarrow> event list \<times> database \<times> 'w" where
  "main K db w =
     (case cancel_orders_from_returned_archive K db w of
        (returned_ids, db1, w1) \<Rightarrow>
          (case cancel_orders_from_archive K db1 w1 of
             (archive_ids, db2, w2) \<Rightarrow>
               (case process_new_orders K w2 of
                  (new_orders_result, w3) \<Rightarrow>
                    if nr_failed new_orders_result \<noteq> []
                    then ([ScriptStarted, NewOrdersResult new_orders_result,
                           NewOrdersError new_orders_result, ScriptFinished], db2, w3)
                    else if nr_success new_orders_result \<noteq> [] then
                      (let new_order_ids = remdups (nr_success new_orders_result) in
                       case fulfillment_attempts K new_order_ids 1 db2 w3 of
                         (exit1, evs1, db3, w4) \<Rightarrow>
                           if exit1 = Return
                           then ([ScriptStarted, NewOrdersResult new_orders_result] @ evs1
                                   @ [ScriptFinished], db3, w4)
                           else
                             (case waybill_attempts K new_order_ids 1 db3 w4 of
                                (exit2, evs2, db4, w5) \<Rightarrow>
                                  ([ScriptStarted, NewOrdersResult new_orders_result] @ evs1
                                     @ evs2 @ [ScriptFinished], db4, w5)))
                    else ([ScriptStarted, NewOrdersResult new_orders_result, NoNewOrders,
                           ScriptFinished], db2, w3))))"

section \<open>Notions used by the properties\<close>

text \<open>
  The ids that an archive pass is expected to report: those of the fetched orders that
  carry a non-empty id, one for each such order.
\<close>

definition archived_ids :: "order list \<Rightarrow> string list" where
  "archived_ids orders =
     concat (map (\<lambda>ord. case o_id ord of None \<Rightarrow> [] | Some i \<Rightarrow> if i = [] then [] else [i]) orders)"

text \<open>
  A marketplace that always gives the same answers; its world counts the calls made.
  It serves to run the operations on concrete inputs.
\<close>

definition const_kaspi ::
  "order list \<Rightarrow> order list \<Rightarrow> order list \<Rightarrow> order list \<Rightarrow> (string option \<Rightarrow> entry list)
     \<Rightarrow> (string \<Rightarrow> bool) \<Rightarrow> (string option \<Rightarrow> bool) \<Rightarrow> nat kaspi" where
  "const_kaspi new delivery archive returned entries accept invoice =
     \<lparr>get_new_orders = (\<lambda>w. (new, Suc w)),
      get_kaspi_delivery = (\<lambda>w. (delivery, Suc w)),
      get_new_archive = (\<lambda>w. (archive, Suc w)),
      get_returned_archive = (\<lambda>w. (returned, Suc w)),
      get_order_entries = (\<lambda>order_id w. (entries order_id, Suc w)),
      accept_order = (\<lambda>order_id order_code w. (accept order_id, Suc w)),
      create_invoice = (\<lambda>order_id w. (invoice order_id, Suc w))\<rparr>"

definition empty_db :: database where
  "empty_db = \<lparr>products = [], stocks = [], stock_inventory = [], kaspi_orders = [],
               kaspi_sold_products = [], kaspi_canceled_orders = []\<rparr>"

definition order_A1 :: order where
  "order_A1 = \<lparr>o_id = Some ''A1'', o_code = Some ''100'', o_status = Some ''CANCELLED'',
               o_pickupPointId = Some ''SHOP_PP5'', o_waybill = None\<rparr>"

text \<open>The ledger invariant: no inventory row holds a negative quantity.\<close>

definition quantities_nonneg :: "database \<Rightarrow> bool" where
  "quantities_nonneg db \<longleftrightarrow> (\<forall>si \<in> set (stock_inventory db). 0 \<le> inv_quantity si)"

text \<open>
  The conditions under which \<open>update_stock_quantity_and_log\<close> is expected to reject a
  call: a negative new quantity, no active stock location of that name, no active product
  of that code, or no active inventory row for the product at the location.
\<close>

definition rejected :: "database \<Rightarrow> string \<Rightarrow> int \<Rightarrow> string option \<Rightarrow> bool" where
  "rejected db product_code new_quantity sname \<longleftrightarrow>
     new_quantity < 0
     \<or> active_stocks db sname = []
     \<or> active_products db product_code = []
     \<or> (\<forall>p \<in> set (active_products db product_code).
          \<forall>s \<in> set (active_stocks db sname). active_inventory db p s = [])"

text \<open>
  No look-up of \<open>update_stock_quantity_and_log\<close> finds more than one row, as is the
  case when stock names and (product, location) pairs are unique among the active rows.
\<close>

definition lookups_unique :: "database \<Rightarrow> string \<Rightarrow> string option \<Rightarrow> bool" where
  "lookups_unique db product_code sname \<longleftrightarrow>
     length (active_stocks db sname) \<le> 1
     \<and> length (active_products db product_code) \<le> 1
     \<and> (\<forall>p \<in> set (active_products db product_code).
          \<forall>s \<in> set (active_stocks db sname). length (active_inventory db p s) \<le> 1)"

text \<open>
  The operations that write the database, for statements about any sequence of them.
  An operation that raises leaves the database as it was.
\<close>

datatype operation =
    UpdateStock string int int string "string option"
  | ProductCancellation string int string
  | SaveOrder "string option" "string option" "string option" string "entry list"
  | MarkCanceled string
  | ProcessSingleOrder order
  | CancelSingleOrder order
  | ProcessOrders
  | SaveWaybillLinks
  | CancelArchive
  | CancelReturnedArchive
  | Main

definition keep :: "database \<Rightarrow> error + database \<Rightarrow> database" where
  "keep db r = (case r of Inl e \<Rightarrow> db | Inr db' \<Rightarrow> db')"

fun apply_operation :: "'w kaspi \<Rightarrow> operation \<Rightarrow> database \<times> 'w \<Rightarrow> database \<times> 'w" where
  "apply_operation K (UpdateStock c nq oq operation sn) (db, w) =
     (keep db (update_stock_quantity_and_log db c nq oq operation sn), w)"
| "apply_operation K (ProductCancellation c q oid) (db, w) =
     (keep db (process_product_cancellation db c q oid), w)"
| "apply_operation K (SaveOrder oid code st sn es) (db, w) =
     (keep db (save_order db oid code st sn es), w)"
| "apply_operation K (MarkCanceled oid) (db, w) = (mark_order_as_canceled db oid, w)"
| "apply_operation K (ProcessSingleOrder ord) (db, w) = snd (process_single_order K db w ord)"
| "apply_operation K (CancelSingleOrder ord) (db, w) = (cancel_single_order db ord, w)"
| "apply_operation K ProcessOrders (db, w) = snd (process_orders K db w)"
| "apply_operation K SaveWaybillLinks (db, w) = snd (save_waybill_links K db w)"
| "apply_operation K CancelArchive (db, w) = snd (cancel_orders_from_archive K db w)"
| "apply_operation K CancelReturnedArchive (db, w) = snd (cancel_orders_from_returned_archive K db w)"
| "apply_operation K Main (db, w) = snd (main K db w)"

definition run :: "'w kaspi \<Rightarrow> operation list \<Rightarrow> database \<times> 'w \<Rightarrow> database \<times> 'w" where
  "run K ops s = foldl (\<lambda>s operation. apply_operation K operation s) s ops"

text \<open>Concrete data: one product \<open>P1\<close> stocked at location \<open>PP5\<close>.\<close>

definition shop_db :: "int \<Rightarrow> database" where
  "shop_db q =
     \<lparr>products = [\<lparr>product_id = 1, product_sku = ''P1'', product_is_active = True\<rparr>],
      stocks = [\<lparr>stock_id = 1, stock_name = ''PP5'', stock_is_active = True\<rparr>],
      stock_inventory = [\<lparr>inv_product_id = 1, inv_stock_id = 1, inv_quantity = q,
                          inv_is_active = True\<rparr>],
      kaspi_orders = [], kaspi_sold_products = [], kaspi_canceled_orders = []\<rparr>"

definition order_D1 :: order where
  "order_D1 = \<lparr>o_id = Some ''D1'', o_code = Some ''200'', o_status = Some ''ACCEPTED_BY_MERCHANT'',
               o_pickupPointId = Some ''SHOP_PP5'', o_waybill = None\<rparr>"

definition entries_P1 :: "int \<Rightarrow> entry list" where
  "entries_P1 n = [\<lparr>entry_code = ''P1'', entry_name = ''Phone'', entry_quantity = n\<rparr>]"

text \<open>
  The database after \<open>process_single_order\<close> has recorded order \<open>D1\<close> (three units
  of \<open>P1\<close> from \<open>PP5\<close>) on a stock of ten: the order and its line item are stored,
  the quantity is still ten.
\<close>

definition shop_db_D1 :: database where
  "shop_db_D1 =
     (shop_db 10)
       \<lparr>kaspi_orders :=
          [\<lparr>ko_order_id = ''D1'', ko_order_code = ''200'', ko_stock_name = ''PP5'',
            ko_status = ''ACCEPTED_BY_MERCHANT'', ko_invoice_generated = False,
            ko_is_canceled = False\<rparr>],
        kaspi_sold_products :=
          [\<lparr>ksp_order_id = ''D1'', ksp_order_code = ''200'', ksp_product_code = ''P1'',
            ksp_product_name = ''Phone'', ksp_quantity = 3, ksp_waybill = None\<rparr>]\<rparr>"

definition kaspi_D1 :: "nat kaspi" where
  "kaspi_D1 = const_kaspi [] [order_D1] [] [] (\<lambda>_. entries_P1 3) (\<lambda>_. True) (\<lambda>_. True)"

definition kaspi_D1_twice :: "nat kaspi" where
  "kaspi_D1_twice =
     const_kaspi [] [order_D1, order_D1] [] [] (\<lambda>_. entries_P1 3) (\<lambda>_. True) (\<lambda>_. True)"

text \<open>
  Order \<open>D1\<close> as the delivery feed shows it once the carrier has issued a waybill, and a
  marketplace whose invoicing call fails.
\<close>

definition order_D1_waybill :: order where
  "order_D1_waybill = order_D1\<lparr>o_waybill := Some ''WB1''\<rparr>"

definition kaspi_no_invoice :: "nat kaspi" where
  "kaspi_no_invoice =
     const_kaspi [] [order_D1_waybill] [] [] (\<lambda>_. entries_P1 3) (\<lambda>_. True) (\<lambda>_. False)"

text \<open>
  Two recorded orders that both sold product \<open>P1\<close>, \<open>O1\<close> from location \<open>PP1\<close> and
  \<open>O2\<close> from location \<open>PP2\<close>, with four and six units left there.
\<close>

definition two_locations_db :: database where
  "two_locations_db =
     \<lparr>products = [\<lparr>product_id = 1, product_sku = ''P1'', product_is_active = True\<rparr>],
      stocks = [\<lparr>stock_id = 1, stock_name = ''PP1'', stock_is_active = True\<rparr>,
                \<lparr>stock_id = 2, stock_name = ''PP2'', stock_is_active = True\<rparr>],
      stock_inventory =
        [\<lparr>inv_product_id = 1, inv_stock_id = 1, inv_quantity = 4, inv_is_active = True\<rparr>,
         \<lparr>inv_product_id = 1, inv_stock_id = 2, inv_quantity = 6, inv_is_active = True\<rparr>],
      kaspi_orders =
        [\<lparr>ko_order_id = ''O1'', ko_order_code = ''301'', ko_stock_name = ''PP1'',
          ko_status = ''ACCEPTED_BY_MERCHANT'', ko_invoice_generated = False,
          ko_is_canceled = False\<rparr>,
         \<lparr>ko_order_id = ''O2'', ko_order_code = ''302'', ko_stock_name = ''PP2'',
          ko_status = ''ACCEPTED_BY_MERCHANT'', ko_invoice_generated = False,
          ko_is_canceled = False\<rparr>],
      kaspi_sold_products =
        [\<lparr>ksp_order_id = ''O1'', ksp_order_code = ''301'', ksp_product_code = ''P1'',
          ksp_product_name = ''Phone'', ksp_quantity = 1, ksp_waybill = None\<rparr>,
         \<lparr>ksp_order_id = ''O2'', ksp_order_code = ''302'', ksp_product_code = ''P1'',
          ksp_product_name = ''Phone'', ksp_quantity = 2, ksp_waybill = None\<rparr>],
      kaspi_canceled_orders = []\<rparr>"

text \<open>The same tables with their rows in the opposite order.\<close>

definition two_locations_db_rev :: database where
  "two_locations_db_rev =
     two_locations_db
       \<lparr>kaspi_orders := rev (kaspi_orders two_locations_db),
        kaspi_sold_products := rev (kaspi_sold_products two_locations_db)\<rparr>"


text \<open>
  Order \<open>D1\<close> recorded, with the ledger showing its three units as sold: seven left.
\<close>

definition sold_db_D1 :: database where
  "sold_db_D1 =
     shop_db_D1\<lparr>stock_inventory :=
       [\<lparr>inv_product_id = 1, inv_stock_id = 1, inv_quantity = 7, inv_is_active = True\<rparr>]\<rparr>"


text \<open>
  A run in which order \<open>D1\<close> is accepted, cannot be fulfilled (it asks for thirty units)
  and shows up in the archive of cancelled orders.
\<close>

definition kaspi_canceled :: "nat kaspi" where
  "kaspi_canceled =
     const_kaspi [order_D1\<lparr>o_status := Some ''APPROVED_BY_BANK''\<rparr>] [order_D1]
       [order_D1\<lparr>o_status := Some ''CANCELLED''\<rparr>] []
       (\<lambda>_. entries_P1 30) (\<lambda>_. True) (\<lambda>_. True)"

definition failed_D1 :: orders_result where
  "failed_D1 = \<lparr>or_processed = 0, or_success = [], or_failed = [Some ''D1'']\<rparr>"

definition accepted_D1 :: new_orders_result where
  "accepted_D1 = \<lparr>nr_processed = 1, nr_success = [''D1''], nr_failed = [], nr_skipped = []\<rparr>"



section \<open>Properties\<close>

declare fulfillment_attempts.simps [simp del]
declare waybill_attempts.simps [simp del]
declare accept_loop.simps [simp del]

subsection \<open>The archive pass reports every id\<close>

lemma cancel_batch_ids:
  "mset (fst (cancel_batch orders ids db)) = mset ids + mset (archived_ids orders)"
  by (induction orders ids db rule: cancel_batch.induct)
     (auto simp: archived_ids_def Let_def split: option.splits)

lemma archived_ids_member:
  "ord \<in> set orders \<Longrightarrow> o_id ord = Some i \<Longrightarrow> i \<noteq> [] \<Longrightarrow> i \<in> set (archived_ids orders)"
  by (force simp: archived_ids_def)

text \<open>
  C10: the archive pass returns the id of every fetched archived order that carries an
  id, once for each such order and nothing else, whatever the database holds: an order
  that was never recorded locally, for which \<open>cancel_single_order\<close> does nothing, is
  still among the returned ids.
\<close>

theorem cancel_orders_from_archive_returns_every_id:
  "get_new_archive K w = (archived_orders, w1) \<longrightarrow>
     mset (fst (cancel_orders_from_archive K db w)) = mset (archived_ids archived_orders)
     \<and> (\<forall>ord \<in> set archived_orders. \<forall>i. o_id ord = Some i \<and> i \<noteq> [] \<longrightarrow>
           i \<in> set (fst (cancel_orders_from_archive K db w)))"
proof
  assume a: "get_new_archive K w = (archived_orders, w1)"
  have ids: "mset (fst (cancel_orders_from_archive K db w)) = mset (archived_ids archived_orders)"
  proof (cases "archived_orders = []")
    case True
    with a show ?thesis by (simp add: cancel_orders_from_archive_def archived_ids_def)
  next
    case False
    with a cancel_batch_ids[of archived_orders "[]" db] show ?thesis
      by (auto simp: cancel_orders_from_archive_def split: prod.splits)
  qed
  have "i \<in> set (fst (cancel_orders_from_archive K db w))"
    if "ord \<in> set archived_orders" "o_id ord = Some i" "i \<noteq> []" for ord i
  proof -
    from that have "i \<in> set (archived_ids archived_orders)"
      by (rule archived_ids_member)
    then have "i \<in># mset (archived_ids archived_orders)" by simp
    with ids have "i \<in># mset (fst (cancel_orders_from_archive K db w))" by simp
    then show ?thesis by simp
  qed
  with ids show "mset (fst (cancel_orders_from_archive K db w)) = mset (archived_ids archived_orders)
     \<and> (\<forall>ord \<in> set archived_orders. \<forall>i. o_id ord = Some i \<and> i \<noteq> [] \<longrightarrow>
           i \<in> set (fst (cancel_orders_from_archive K db w)))"
    by blast
qed

theorem cancel_orders_from_archive_returns_every_id_witness:
  "get_new_archive (const_kaspi [] [] [order_A1] [] (\<lambda>_. []) (\<lambda>_. True) (\<lambda>_. True)) 0
     = ([order_A1], 1)
   \<and> \<not> is_order_processed empty_db (Some ''A1'')
   \<and> fst (snd (cancel_orders_from_archive
                 (const_kaspi [] [] [order_A1] [] (\<lambda>_. []) (\<lambda>_. True) (\<lambda>_. True)) empty_db 0))
       = empty_db
   \<and> mset (fst (cancel_orders_from_archive
                  (const_kaspi [] [] [order_A1] [] (\<lambda>_. []) (\<lambda>_. True) (\<lambda>_. True)) empty_db 0))
       = {#''A1''#}
   \<and> ''A1'' \<in> set (fst (cancel_orders_from_archive
                  (const_kaspi [] [] [order_A1] [] (\<lambda>_. []) (\<lambda>_. True) (\<lambda>_. True)) empty_db 0))"
proof -
  let ?K = "const_kaspi [] [] [order_A1] [] (\<lambda>_. []) (\<lambda>_. True) (\<lambda>_. True)"
  have g: "get_new_archive ?K 0 = ([order_A1], 1)"
    by (simp add: const_kaspi_def)
  have np: "\<not> is_order_processed empty_db (Some ''A1'')"
    by (simp add: is_order_processed_def empty_db_def)
  have r: "fst (snd (cancel_orders_from_archive ?K empty_db 0)) = empty_db"
    by code_simp
  have i: "o_id order_A1 = Some ''A1''" "''A1'' \<noteq> []" "order_A1 \<in> set [order_A1]"
    by (simp_all add: order_A1_def)
  have e: "archived_ids [order_A1] = [''A1'']"
    by (simp add: archived_ids_def order_A1_def)
  note t = cancel_orders_from_archive_returns_every_id[of ?K 0 "[order_A1]" 1 empty_db]
  from t g e have m: "mset (fst (cancel_orders_from_archive ?K empty_db 0)) = {#''A1''#}"
    by simp
  from t g i have "''A1'' \<in> set (fst (cancel_orders_from_archive ?K empty_db 0))"
    by blast
  with g np r m show ?thesis by blast
qed

subsection \<open>Rejected stock updates and the sign of quantities\<close>

lemma scalar_one_or_none_None: "scalar_one_or_none rows = Inr None \<longleftrightarrow> rows = []"
  by (auto simp: scalar_one_or_none_def split: list.splits)


lemma scalar_one_or_none_Some: "scalar_one_or_none rows = Inr (Some r) \<longleftrightarrow> rows = [r]"
  by (auto simp: scalar_one_or_none_def split: list.splits)

lemma scalar_one_or_none_Inl:
  "scalar_one_or_none rows = Inl e \<longleftrightarrow> e = MultipleResultsFound \<and> 2 \<le> length rows"
  by (auto simp: scalar_one_or_none_def split: list.splits)

lemma update_cases:
  assumes "update_stock_quantity_and_log db product_code new_quantity order_quantity operation sname = Inr db'"
  shows "db' = db"
  using assms unfolding update_stock_quantity_and_log_def
  by (auto simp: rollback_def split: sum.splits option.splits if_splits)

lemma update_Inl:
  assumes "update_stock_quantity_and_log db product_code new_quantity order_quantity operation sname = Inl e"
  shows "e = MultipleResultsFound"
  using assms unfolding update_stock_quantity_and_log_def
  by (auto simp: scalar_one_or_none_Inl split: sum.splits option.splits if_splits)

lemma update_rejected:
  assumes "rejected db product_code new_quantity sname"
  shows "update_stock_quantity_and_log db product_code new_quantity order_quantity operation sname = Inr db
       \<or> update_stock_quantity_and_log db product_code new_quantity order_quantity operation sname
            = Inl MultipleResultsFound"
proof (cases "update_stock_quantity_and_log db product_code new_quantity order_quantity operation sname")
  case (Inl e)
  then show ?thesis using update_Inl by blast
next
  case (Inr db')
  then show ?thesis using update_cases by blast
qed

lemma update_nonneg:
  assumes "update_stock_quantity_and_log db product_code new_quantity order_quantity operation sname = Inr db'"
    and "quantities_nonneg db"
  shows "quantities_nonneg db'"
  using update_cases[OF assms(1)] assms(2) by simp


lemma cancellation_cases:
  assumes "process_product_cancellation db product_code quantity order_id = Inr db'"
  shows "db' = db \<or>
         db' = db\<lparr>kaspi_canceled_orders := kaspi_canceled_orders db
                      @ [save_canceled_order db order_id product_code]\<rparr>"
  using assms unfolding process_product_cancellation_def Let_def
  by (auto split: option.splits prod.splits sum.splits dest: update_cases)

lemma cancellation_nonneg:
  assumes "process_product_cancellation db product_code quantity order_id = Inr db'"
    and "quantities_nonneg db"
  shows "quantities_nonneg db'"
  using cancellation_cases[OF assms(1)] assms(2) by (auto simp: quantities_nonneg_def)

lemma cancel_products_nonneg:
  "quantities_nonneg db \<Longrightarrow> quantities_nonneg (snd (cancel_products db order_id rows))"
proof (induction db order_id rows rule: cancel_products.induct)
  case (1 db order_id)
  then show ?case by simp
next
  case (2 db order_id product_code quantity product_name rest)
  show ?case
  proof (cases "process_product_cancellation db product_code quantity order_id")
    case (Inl e)
    with 2 show ?thesis by simp
  next
    case (Inr db')
    with 2 cancellation_nonneg[OF Inr] show ?thesis by simp
  qed
qed

lemma mark_nonneg:
  "quantities_nonneg (mark_order_as_canceled db order_id) = quantities_nonneg db"
  by (simp add: quantities_nonneg_def mark_order_as_canceled_def)

lemma cancel_products_nonneg':
  "cancel_products db order_id rows = (e, db1) \<Longrightarrow> quantities_nonneg db \<Longrightarrow> quantities_nonneg db1"
  using cancel_products_nonneg[of db order_id rows] by simp

lemma cancel_single_order_nonneg:
  "quantities_nonneg db \<Longrightarrow> quantities_nonneg (cancel_single_order db ord)"
  unfolding cancel_single_order_def Let_def
  by (auto simp: mark_nonneg split: option.splits prod.splits dest: cancel_products_nonneg')

lemma cancel_batch_nonneg:
  "quantities_nonneg db \<Longrightarrow> quantities_nonneg (snd (cancel_batch orders ids db))"
proof (induction orders ids db rule: cancel_batch.induct)
  case (1 canceled_ids db)
  then show ?case by simp
next
  case (2 ord orders canceled_ids db)
  from 2 cancel_single_order_nonneg[of db ord] show ?case
    by (simp add: Let_def split: option.splits)
qed


lemma commit_entries_nonneg:
  "quantities_nonneg db \<Longrightarrow> quantities_nonneg (snd (commit_entries db sname es))"
proof (induction db sname es rule: commit_entries.induct)
  case (1 db sname)
  then show ?case by simp
next
  case (2 db sname e es)
  let ?u = "update_stock_quantity_and_log db (entry_code e)
              (get_stock_quantity db (entry_code e) (Some sname) - entry_quantity e)
              (entry_quantity e) ''sales'' (Some sname)"
  show ?case
  proof (cases ?u)
    case (Inl err)
    with 2 show ?thesis by (simp add: Let_def)
  next
    case (Inr db')
    with 2 update_nonneg[OF Inr] show ?thesis by (simp add: Let_def)
  qed
qed

lemma save_order_inventory:
  "save_order db oid code st sn es = Inr db' \<Longrightarrow> stock_inventory db' = stock_inventory db"
  unfolding save_order_def by (auto split: option.splits if_splits)

lemma save_order_nonneg:
  "save_order db oid code st sn es = Inr db' \<Longrightarrow> quantities_nonneg db \<Longrightarrow> quantities_nonneg db'"
  using save_order_inventory[of db oid code st sn es db'] by (simp add: quantities_nonneg_def)

lemma commit_entries_nonneg':
  "commit_entries db sname es = (e, db1) \<Longrightarrow> quantities_nonneg db \<Longrightarrow> quantities_nonneg db1"
  using commit_entries_nonneg[of db sname es] by simp

lemma process_single_order_nonneg:
  assumes "quantities_nonneg db"
  shows "quantities_nonneg (fst (snd (process_single_order K db w ord)))"
  using assms unfolding process_single_order_def Let_def
  by (auto split: prod.splits option.splits sum.splits
      dest: commit_entries_nonneg' save_order_nonneg)

lemma process_batch_nonneg:
  "quantities_nonneg db \<Longrightarrow>
   quantities_nonneg (fst (snd (snd (process_batch K orders success failed db w))))"
proof (induction K orders success failed db w rule: process_batch.induct)
  case (1 K success failed db w)
  then show ?case by simp
next
  case (2 K ord orders success failed db w)
  obtain result db1 w1 where p: "process_single_order K db w ord = (result, db1, w1)"
    by (cases "process_single_order K db w ord") auto
  with process_single_order_nonneg[OF "2.prems", of K w ord] have "quantities_nonneg db1"
    by simp
  with 2 p show ?case by (cases result) simp_all
qed

lemma process_orders_nonneg:
  "quantities_nonneg db \<Longrightarrow> quantities_nonneg (fst (snd (process_orders K db w)))"
  using process_batch_nonneg[of db K _ "[]" "[]"]
  unfolding process_orders_def
  by (auto split: prod.splits) (metis fst_conv snd_conv)

lemma waybill_batch_inventory:
  "stock_inventory (snd (waybill_batch orders ids db)) = stock_inventory db"
  by (induction orders ids db rule: waybill_batch.induct)
     (auto simp: set_invoice_generated_def set_waybill_def split: prod.splits)

lemma save_waybill_links_nonneg:
  "quantities_nonneg db \<Longrightarrow> quantities_nonneg (fst (snd (save_waybill_links K db w)))"
  using waybill_batch_inventory[of _ "[]" db]
  unfolding save_waybill_links_def quantities_nonneg_def
  by (auto split: prod.splits) (metis snd_conv)

lemma cancel_archive_nonneg:
  "quantities_nonneg db \<Longrightarrow> quantities_nonneg (fst (snd (cancel_orders_from_archive K db w)))"
  using cancel_batch_nonneg[of db _ "[]"]
  unfolding cancel_orders_from_archive_def
  by (auto split: prod.splits) (metis snd_conv)

lemma cancel_returned_nonneg:
  "quantities_nonneg db \<Longrightarrow>
   quantities_nonneg (fst (snd (cancel_orders_from_returned_archive K db w)))"
  using cancel_batch_nonneg[of db _ "[]"]
  unfolding cancel_orders_from_returned_archive_def
  by (auto split: prod.splits) (metis snd_conv)



lemma fulfillment_attempts_nonneg:
  "quantities_nonneg db \<Longrightarrow>
   quantities_nonneg (fst (snd (snd (fulfillment_attempts K ids attempt db w))))"
proof (induction K ids attempt db w rule: fulfillment_attempts.induct)
  case (1 K ids attempt db w)
  show ?case
  proof (cases "attempt \<le> MAX_ATTEMPTS")
    case False
    with "1.prems" show ?thesis by (simp add: fulfillment_attempts.simps[of K ids attempt db w])
  next
    case True
    obtain r db1 w1 where p: "process_orders K db w = (r, db1, w1)"
      by (cases "process_orders K db w") auto
    have n1: "quantities_nonneg db1"
      using process_orders_nonneg[OF "1.prems", of K w] p by simp
    obtain cids db2 w2 where c: "cancel_orders_from_archive K db1 w1 = (cids, db2, w2)"
      by (cases "cancel_orders_from_archive K db1 w1") auto
    have n2: "quantities_nonneg db2"
      using cancel_archive_nonneg[OF n1, of K w1] c by simp
    show ?thesis
    proof (cases "or_success r \<noteq> []")
      case True
      with \<open>attempt \<le> MAX_ATTEMPTS\<close> p n1 show ?thesis
        by (simp add: fulfillment_attempts.simps[of K ids attempt db w])
    next
      case False
      note ns = this
      show ?thesis
      proof (cases "any_in ids cids")
        case True
        with ns \<open>attempt \<le> MAX_ATTEMPTS\<close> p c n2 show ?thesis
          by (simp add: fulfillment_attempts.simps[of K ids attempt db w])
      next
        case False
        from "1.IH"[OF \<open>attempt \<le> MAX_ATTEMPTS\<close> p[symmetric] refl _ c[symmetric] refl False n2] ns
        have "quantities_nonneg (fst (snd (snd (fulfillment_attempts K ids (attempt + 1) db2 w2))))"
          by simp
        with False ns \<open>attempt \<le> MAX_ATTEMPTS\<close> p c show ?thesis
          by (auto simp: fulfillment_attempts.simps[of K ids attempt db w] split: prod.splits)
      qed
    qed
  qed
qed


lemma waybill_attempts_nonneg:
  "quantities_nonneg db \<Longrightarrow>
   quantities_nonneg (fst (snd (snd (waybill_attempts K ids attempt db w))))"
proof (induction K ids attempt db w rule: waybill_attempts.induct)
  case (1 K ids attempt db w)
  show ?case
  proof (cases "attempt \<le> MAX_ATTEMPTS")
    case False
    with "1.prems" show ?thesis by (simp add: waybill_attempts.simps[of K ids attempt db w])
  next
    case True
    obtain r db1 w1 where p: "save_waybill_links K db w = (r, db1, w1)"
      by (cases "save_waybill_links K db w") auto
    have n1: "quantities_nonneg db1"
      using save_waybill_links_nonneg[OF "1.prems", of K w] p by simp
    obtain cids db2 w2 where c: "cancel_orders_from_archive K db1 w1 = (cids, db2, w2)"
      by (cases "cancel_orders_from_archive K db1 w1") auto
    have n2: "quantities_nonneg db2"
      using cancel_archive_nonneg[OF n1, of K w1] c by simp
    show ?thesis
    proof (cases "\<exists>order_id \<in> set ids. Some order_id \<in> set r")
      case True
      with \<open>attempt \<le> MAX_ATTEMPTS\<close> p n1 show ?thesis
        by (simp add: waybill_attempts.simps[of K ids attempt db w])
    next
      case False
      note ns = this
      show ?thesis
      proof (cases "any_in ids cids")
        case True
        with ns \<open>attempt \<le> MAX_ATTEMPTS\<close> p c n2 show ?thesis
          by (simp add: waybill_attempts.simps[of K ids attempt db w])
      next
        case False
        from "1.IH"[OF \<open>attempt \<le> MAX_ATTEMPTS\<close> p[symmetric] refl ns c[symmetric] refl False n2]
        have "quantities_nonneg (fst (snd (snd (waybill_attempts K ids (attempt + 1) db2 w2))))"
          by simp
        with False ns \<open>attempt \<le> MAX_ATTEMPTS\<close> p c show ?thesis
          by (auto simp: waybill_attempts.simps[of K ids attempt db w] split: prod.splits)
      qed
    qed
  qed
qed

lemma main_nonneg:
  assumes "quantities_nonneg db"
  shows "quantities_nonneg (fst (snd (main K db w)))"
proof -
  obtain rids db1 w1 where a: "cancel_orders_from_returned_archive K db w = (rids, db1, w1)"
    by (cases "cancel_orders_from_returned_archive K db w") auto
  have n1: "quantities_nonneg db1" using cancel_returned_nonneg[OF assms, of K w] a by simp
  obtain aids db2 w2 where b: "cancel_orders_from_archive K db1 w1 = (aids, db2, w2)"
    by (cases "cancel_orders_from_archive K db1 w1") auto
  have n2: "quantities_nonneg db2" using cancel_archive_nonneg[OF n1, of K w1] b by simp
  obtain r w3 where c: "process_new_orders K w2 = (r, w3)"
    by (cases "process_new_orders K w2") auto
  obtain x1 e1 db3 w4 where
    d: "fulfillment_attempts K (remdups (nr_success r)) 1 db2 w3 = (x1, e1, db3, w4)"
    by (cases "fulfillment_attempts K (remdups (nr_success r)) 1 db2 w3") auto
  have n3: "quantities_nonneg db3"
    using fulfillment_attempts_nonneg[OF n2, of K "remdups (nr_success r)" 1 w3] d by simp
  obtain x2 e2 db4 w5 where
    e: "waybill_attempts K (remdups (nr_success r)) 1 db3 w4 = (x2, e2, db4, w5)"
    by (cases "waybill_attempts K (remdups (nr_success r)) 1 db3 w4") auto
  have n4: "quantities_nonneg db4"
    using waybill_attempts_nonneg[OF n3, of K "remdups (nr_success r)" 1 w4] e by simp
  show ?thesis
    using a b c d e n2 n3 n4 by (simp add: main_def Let_def)
qed

lemma keep_nonneg:
  "quantities_nonneg db \<Longrightarrow> (\<And>db'. r = Inr db' \<Longrightarrow> quantities_nonneg db') \<Longrightarrow>
   quantities_nonneg (keep db r)"
  by (cases r) (simp_all add: keep_def)

lemma apply_operation_nonneg:
  "quantities_nonneg (fst s) \<Longrightarrow> quantities_nonneg (fst (apply_operation K operation s))"
proof (cases s)
  case (Pair db w)
  assume "quantities_nonneg (fst s)"
  with Pair have n: "quantities_nonneg db" by simp
  show ?thesis
  proof (cases operation)
    case (UpdateStock c nq oq opn sn)
    with Pair n show ?thesis by (auto intro!: keep_nonneg dest: update_nonneg)
  next
    case (ProductCancellation c q oid)
    with Pair n show ?thesis by (auto intro!: keep_nonneg dest: cancellation_nonneg)
  next
    case (SaveOrder oid code st sn es)
    with Pair n show ?thesis by (auto intro!: keep_nonneg dest: save_order_nonneg)
  next
    case (MarkCanceled oid)
    with Pair n show ?thesis by (simp add: mark_nonneg)
  next
    case (ProcessSingleOrder ord)
    with Pair process_single_order_nonneg[OF n, of K w ord] show ?thesis by simp
  next
    case (CancelSingleOrder ord)
    with Pair cancel_single_order_nonneg[OF n, of ord] show ?thesis by simp
  next
    case ProcessOrders
    with Pair process_orders_nonneg[OF n, of K w] show ?thesis by simp
  next
    case SaveWaybillLinks
    with Pair save_waybill_links_nonneg[OF n, of K w] show ?thesis by simp
  next
    case CancelArchive
    with Pair cancel_archive_nonneg[OF n, of K w] show ?thesis by simp
  next
    case CancelReturnedArchive
    with Pair cancel_returned_nonneg[OF n, of K w] show ?thesis by simp
  next
    case Main
    with Pair main_nonneg[OF n, of K w] show ?thesis by simp
  qed
qed

lemma run_nonneg:
  "quantities_nonneg (fst s) \<Longrightarrow> quantities_nonneg (fst (run K ops s))"
  unfolding run_def
  by (induction ops arbitrary: s) (simp_all add: apply_operation_nonneg)


lemma update_raises_only_if_ambiguous:
  assumes "update_stock_quantity_and_log db product_code new_quantity order_quantity operation sname
             = Inl e"
  shows "\<not> lookups_unique db product_code sname"
proof -
  from assms consider
      (stock) "scalar_one_or_none (active_stocks db sname) = Inl e"
    | (product) stock where "active_stocks db sname = [stock]"
        "scalar_one_or_none (active_products db product_code) = Inl e"
    | (inventory) stock product where "active_stocks db sname = [stock]"
        "active_products db product_code = [product]"
        "scalar_one_or_none (active_inventory db product stock) = Inl e"
    unfolding update_stock_quantity_and_log_def
    by (auto simp: scalar_one_or_none_Some split: sum.splits option.splits if_splits)
  then show ?thesis
  proof cases
    case stock
    then show ?thesis by (simp add: scalar_one_or_none_Inl lookups_unique_def)
  next
    case product
    then show ?thesis by (simp add: scalar_one_or_none_Inl lookups_unique_def)
  next
    case inventory
    then show ?thesis by (simp add: scalar_one_or_none_Inl lookups_unique_def)
  qed
qed

text \<open>
  C1: a call of \<open>update_stock_quantity_and_log\<close> with a negative new quantity, or whose
  stock location, product or inventory row is missing or inactive, leaves the database
  as it was: it returns after its warning, or, when a look-up finds more than one row,
  raises before any write; and from a database without negative quantities, no
  sequence of operations reaches one with a negative quantity.
\<close>

theorem update_stock_rejects_and_quantities_stay_nonneg:
  "(rejected db product_code new_quantity sname \<longrightarrow>
      (update_stock_quantity_and_log db product_code new_quantity order_quantity operation sname
         = Inr db
       \<or> update_stock_quantity_and_log db product_code new_quantity order_quantity operation sname
         = Inl MultipleResultsFound)
      \<and> (lookups_unique db product_code sname \<longrightarrow>
           update_stock_quantity_and_log db product_code new_quantity order_quantity operation
             sname = Inr db))
   \<and> (quantities_nonneg db \<longrightarrow> quantities_nonneg (fst (run K ops (db, w))))"
  using update_rejected[of db product_code new_quantity sname order_quantity operation]
    update_raises_only_if_ambiguous[of db product_code new_quantity order_quantity operation sname]
    run_nonneg[of "(db, w)" K ops]
  by auto

theorem update_stock_rejects_and_quantities_stay_nonneg_witness:
  "rejected (shop_db 2) ''P1'' (- 3) (Some ''PP5'')
   \<and> lookups_unique (shop_db 2) ''P1'' (Some ''PP5'')
   \<and> update_stock_quantity_and_log (shop_db 2) ''P1'' (- 3) 5 ''sales'' (Some ''PP5'')
       = Inr (shop_db 2)
   \<and> quantities_nonneg (shop_db 10)
   \<and> quantities_nonneg
        (fst (run (const_kaspi [] [order_D1] [] [] (\<lambda>_. entries_P1 3) (\<lambda>_. True) (\<lambda>_. True))
               [ProcessOrders, UpdateStock ''P1'' (- 1) 8 ''sales'' (Some ''PP5''),
                CancelSingleOrder order_D1] (shop_db 10, 0)))"
proof -
  have r: "rejected (shop_db 2) ''P1'' (- 3) (Some ''PP5'')"
    by (simp add: rejected_def)
  have n: "quantities_nonneg (shop_db 10)"
    by (simp add: quantities_nonneg_def shop_db_def)
  have u: "lookups_unique (shop_db 2) ''P1'' (Some ''PP5'')"
    by (simp add: lookups_unique_def shop_db_def active_stocks_def active_products_def
        active_inventory_def inventory_match_def)
  note t = update_stock_rejects_and_quantities_stay_nonneg
             [of "shop_db 2" "''P1''" "- 3" "Some ''PP5''" 5 "''sales''", THEN conjunct1]
  from t r u
  have a: "update_stock_quantity_and_log (shop_db 2) ''P1'' (- 3) 5 ''sales'' (Some ''PP5'')
             = Inr (shop_db 2)"
    by blast
  have "quantities_nonneg
        (fst (run (const_kaspi [] [order_D1] [] [] (\<lambda>_. entries_P1 3) (\<lambda>_. True) (\<lambda>_. True))
               [ProcessOrders, UpdateStock ''P1'' (- 1) 8 ''sales'' (Some ''PP5''),
                CancelSingleOrder order_D1] (shop_db 10, 0)))"
    by (rule update_stock_rejects_and_quantities_stay_nonneg[THEN conjunct2, THEN mp, OF n])
  with r u a n show ?thesis by simp
qed

subsection \<open>No partial fulfilment\<close>

lemma check_entries_iff:
  "check_entries db sname es \<longleftrightarrow>
     \<not> (\<exists>e \<in> set es. get_stock_quantity db (entry_code e) (Some sname) < entry_quantity e)"
  by (induction es) auto

text \<open>
  C2: if some line item of an order asks for more than the quantity read for it at the
  order's stock location, \<open>process_single_order\<close> returns \<open>False\<close> and the database
  is the one it started from: nothing is decremented and no order or line-item row is
  created.
\<close>

theorem short_line_item_fails_whole_order:
  "get_order_entries K (o_id ord) w = (entries, w1) \<and> o_pickupPointId ord = Some pp
   \<and> (\<exists>e \<in> set entries.
         get_stock_quantity db (entry_code e) (Some (last3 pp)) < entry_quantity e)
   \<longrightarrow> fst (process_single_order K db w ord) = False
       \<and> fst (snd (process_single_order K db w ord)) = db"
proof
  assume a: "get_order_entries K (o_id ord) w = (entries, w1) \<and> o_pickupPointId ord = Some pp
   \<and> (\<exists>e \<in> set entries.
         get_stock_quantity db (entry_code e) (Some (last3 pp)) < entry_quantity e)"
  then have "\<not> check_entries db (last3 pp) entries"
    by (simp add: check_entries_iff)
  with a show "fst (process_single_order K db w ord) = False
       \<and> fst (snd (process_single_order K db w ord)) = db"
    by (simp add: process_single_order_def)
qed

theorem short_line_item_fails_whole_order_witness:
  "get_order_entries (const_kaspi [] [order_D1] [] [] (\<lambda>_. entries_P1 5) (\<lambda>_. True) (\<lambda>_. True))
      (o_id order_D1) 0 = (entries_P1 5, 1)
   \<and> o_pickupPointId order_D1 = Some ''SHOP_PP5''
   \<and> get_stock_quantity (shop_db 2) ''P1'' (Some ''PP5'') = 2
   \<and> fst (process_single_order
            (const_kaspi [] [order_D1] [] [] (\<lambda>_. entries_P1 5) (\<lambda>_. True) (\<lambda>_. True))
            (shop_db 2) 0 order_D1) = False
   \<and> fst (snd (process_single_order
            (const_kaspi [] [order_D1] [] [] (\<lambda>_. entries_P1 5) (\<lambda>_. True) (\<lambda>_. True))
            (shop_db 2) 0 order_D1)) = shop_db 2"
proof -
  let ?K = "const_kaspi [] [order_D1] [] [] (\<lambda>_. entries_P1 5) (\<lambda>_. True) (\<lambda>_. True)"
  have g: "get_order_entries ?K (o_id order_D1) 0 = (entries_P1 5, 1)"
    by (simp add: const_kaspi_def)
  have p: "o_pickupPointId order_D1 = Some ''SHOP_PP5''"
    by (simp add: order_D1_def)
  have q: "get_stock_quantity (shop_db 2) ''P1'' (Some ''PP5'') = 2"
    by (simp add: get_stock_quantity_def stock_quantity_rows_def shop_db_def first_row_def)
  have l: "last3 ''SHOP_PP5'' = ''PP5''"
    by (simp add: last3_def)
  have s: "\<exists>e \<in> set (entries_P1 5).
         get_stock_quantity (shop_db 2) (entry_code e) (Some (last3 ''SHOP_PP5'')) < entry_quantity e"
    using q l by (simp add: entries_P1_def)
  from short_line_item_fails_whole_order[of ?K order_D1 0 "entries_P1 5" 1 "''SHOP_PP5''" "shop_db 2"]
    g p s
  have "fst (process_single_order ?K (shop_db 2) 0 order_D1) = False
       \<and> fst (snd (process_single_order ?K (shop_db 2) 0 order_D1)) = shop_db 2"
    by blast
  with g p q show ?thesis by simp
qed

subsection \<open>Orders that are already recorded\<close>

lemma already_processed_returns_False:
  "is_order_processed db (o_id ord) \<Longrightarrow> process_single_order K db w ord = (False, db, w)"
  by (simp add: process_single_order_def)

lemma update_kaspi_orders:
  assumes "update_stock_quantity_and_log db c nq oq opn sn = Inr db'"
  shows "kaspi_orders db' = kaspi_orders db"
  using update_cases[OF assms] by simp

lemma commit_entries_kaspi_orders:
  "kaspi_orders (snd (commit_entries db sname es)) = kaspi_orders db"
proof (induction db sname es rule: commit_entries.induct)
  case (1 db sname)
  then show ?case by simp
next
  case (2 db sname e es)
  then show ?case
    by (auto simp: Let_def split: sum.splits dest: update_kaspi_orders)
qed

lemma save_order_processed:
  "save_order db oid code st sn es = Inr db' \<Longrightarrow> is_order_processed db i
     \<Longrightarrow> is_order_processed db' i"
  unfolding save_order_def is_order_processed_def
  by (auto split: option.splits if_splits)

lemma commit_entries_processed:
  "commit_entries db sname es = (e, db1) \<Longrightarrow> is_order_processed db1 i = is_order_processed db i"
  using commit_entries_kaspi_orders[of db sname es] by (simp add: is_order_processed_def)

lemma process_single_order_keeps_processed:
  assumes "is_order_processed db i"
  shows "is_order_processed (fst (snd (process_single_order K db w ord))) i"
  using assms unfolding process_single_order_def Let_def
  by (auto split: prod.splits option.splits sum.splits
      simp: commit_entries_processed dest: save_order_processed)

lemma process_batch_already_processed:
  assumes "is_order_processed db i"
  shows "set (fst (process_batch K orders success failed db w)) - set success \<subseteq> - {i}
       \<and> (i \<in> o_id ` set orders \<longrightarrow>
            i \<in> set (fst (snd (process_batch K orders success failed db w))))
       \<and> set failed \<subseteq> set (fst (snd (process_batch K orders success failed db w)))"
  using assms
proof (induction K orders success failed db w rule: process_batch.induct)
  case (1 K success failed db w)
  then show ?case by simp
next
  case (2 K ord orders success failed db w)
  obtain result db1 w1 where p: "process_single_order K db w ord = (result, db1, w1)"
    by (cases "process_single_order K db w ord") auto
  have k: "is_order_processed db1 i"
    using process_single_order_keeps_processed[OF "2.prems", of K w ord] p by simp
  show ?case
  proof (cases result)
    case True
    have ne: "o_id ord \<noteq> i"
      using already_processed_returns_False[of db ord K w] "2.prems" p True by auto
    from "2.IH"(1)[OF p[symmetric] refl True k] p True ne show ?thesis
      by auto
  next
    case False
    from "2.IH"(2)[OF p[symmetric] refl False k] p False show ?thesis
      by auto
  qed
qed


text \<open>
  C3, as stated, fails: a second invocation on a recorded order writes nothing, but it
  returns \<open>False\<close>, the value of a failure, and \<open>process_orders\<close> lists the order
  among the failed ones.
\<close>

theorem already_processed_not_a_failure_counterexample:
  "process_single_order kaspi_D1 (shop_db 10) 0 order_D1 = (True, shop_db_D1, 2)
   \<and> is_order_processed shop_db_D1 (o_id order_D1)
   \<and> process_single_order kaspi_D1 shop_db_D1 2 order_D1 = (False, shop_db_D1, 2)
   \<and> or_failed (fst (process_orders kaspi_D1 shop_db_D1 2)) = [Some ''D1'']
   \<and> or_success (fst (process_orders kaspi_D1 shop_db_D1 2)) = []"
  by code_simp

text \<open>
  C3, amended: if the order id is already in the order table, \<open>process_single_order\<close>
  changes neither the database nor the marketplace and returns \<open>False\<close>; a batch that
  contains such an order reports its id among the failed ids and not among the succeeded
  ones.
\<close>

theorem already_processed_is_noop_reported_failed:
  "is_order_processed db (o_id ord) \<longrightarrow>
     process_single_order K db w ord = (False, db, w)
     \<and> (\<forall>batch w1. get_kaspi_delivery K w = (batch, w1) \<and> ord \<in> set batch \<longrightarrow>
            o_id ord \<in> set (or_failed (fst (process_orders K db w)))
            \<and> o_id ord \<notin> set (or_success (fst (process_orders K db w))))"
proof
  assume a: "is_order_processed db (o_id ord)"
  have "o_id ord \<in> set (or_failed (fst (process_orders K db w)))
        \<and> o_id ord \<notin> set (or_success (fst (process_orders K db w)))"
    if g: "get_kaspi_delivery K w = (batch, w1)" and m: "ord \<in> set batch" for batch w1
  proof -
    from m have ne: "batch \<noteq> []" by auto
    obtain success failed db2 w2 where
      b: "process_batch K batch [] [] db w1 = (success, failed, db2, w2)"
      by (cases "process_batch K batch [] [] db w1") auto
    from process_batch_already_processed[OF a, of K batch "[]" "[]" w1] b m
    have "o_id ord \<notin> set success" "o_id ord \<in> set failed"
      by auto
    with g ne b show ?thesis by (simp add: process_orders_def)
  qed
  with a show "process_single_order K db w ord = (False, db, w)
     \<and> (\<forall>batch w1. get_kaspi_delivery K w = (batch, w1) \<and> ord \<in> set batch \<longrightarrow>
            o_id ord \<in> set (or_failed (fst (process_orders K db w)))
            \<and> o_id ord \<notin> set (or_success (fst (process_orders K db w))))"
    using already_processed_returns_False[of db ord K w] by blast
qed

theorem already_processed_is_noop_reported_failed_witness:
  "is_order_processed shop_db_D1 (o_id order_D1)
   \<and> get_kaspi_delivery kaspi_D1 2 = ([order_D1], 3)
   \<and> process_single_order kaspi_D1 shop_db_D1 2 order_D1 = (False, shop_db_D1, 2)
   \<and> o_id order_D1 \<in> set (or_failed (fst (process_orders kaspi_D1 shop_db_D1 2)))
   \<and> o_id order_D1 \<notin> set (or_success (fst (process_orders kaspi_D1 shop_db_D1 2)))"
proof -
  have p: "is_order_processed shop_db_D1 (o_id order_D1)"
    by code_simp
  have g: "get_kaspi_delivery kaspi_D1 2 = ([order_D1], 3)"
    by (simp add: kaspi_D1_def const_kaspi_def)
  have m: "order_D1 \<in> set [order_D1]"
    by simp
  from already_processed_is_noop_reported_failed[of shop_db_D1 order_D1 kaspi_D1 2] p g m
  show ?thesis by blast
qed

subsection \<open>The batch result as a partition\<close>

lemma process_batch_mset:
  "mset (fst (process_batch K orders success failed db w))
     + mset (fst (snd (process_batch K orders success failed db w)))
   = mset success + mset failed + mset (map o_id orders)"
proof (induction K orders success failed db w rule: process_batch.induct)
  case (1 K success failed db w)
  then show ?case by simp
next
  case (2 K ord orders success failed db w)
  obtain result db1 w1 where p: "process_single_order K db w ord = (result, db1, w1)"
    by (cases "process_single_order K db w ord") auto
  show ?case
  proof (cases result)
    case True
    from "2.IH"(1)[OF p[symmetric] refl True] p True show ?thesis by simp
  next
    case False
    from "2.IH"(2)[OF p[symmetric] refl False] p False show ?thesis by simp
  qed
qed

lemma process_orders_mset:
  assumes "get_kaspi_delivery K w = (batch, w1)"
  shows "mset (or_success (fst (process_orders K db w)))
           + mset (or_failed (fst (process_orders K db w))) = mset (map o_id batch)"
proof (cases "batch = []")
  case True
  with assms show ?thesis by (simp add: process_orders_def)
next
  case False
  obtain success failed db2 w2 where
    b: "process_batch K batch [] [] db w1 = (success, failed, db2, w2)"
    by (cases "process_batch K batch [] [] db w1") auto
  from process_batch_mset[of K batch "[]" "[]" db w1] b
  have "mset success + mset failed = mset (map o_id batch)" by simp
  with assms False b show ?thesis by (simp add: process_orders_def)
qed

text \<open>
  C9, as stated, fails on a batch that holds the same order twice: the first occurrence
  is fulfilled, the second is already recorded, and the id is in both lists.
\<close>

theorem process_orders_partition_counterexample:
  "get_kaspi_delivery kaspi_D1_twice 0 = ([order_D1, order_D1], 1)
   \<and> or_success (fst (process_orders kaspi_D1_twice (shop_db 10) 0)) = [Some ''D1'']
   \<and> or_failed (fst (process_orders kaspi_D1_twice (shop_db 10) 0)) = [Some ''D1'']"
  by code_simp

text \<open>
  C9, amended: every order of the batch, counted with its multiplicity, has its id in
  exactly one of the two lists, so that no id outside the batch appears in either; when
  the ids of the batch are pairwise distinct, no id is in both lists.
\<close>

theorem process_orders_partitions_batch:
  "get_kaspi_delivery K w = (batch, w1) \<longrightarrow>
     mset (or_success (fst (process_orders K db w)))
       + mset (or_failed (fst (process_orders K db w))) = mset (map o_id batch)
     \<and> set (or_success (fst (process_orders K db w)))
         \<union> set (or_failed (fst (process_orders K db w))) = o_id ` set batch
     \<and> (distinct (map o_id batch) \<longrightarrow>
           set (or_success (fst (process_orders K db w)))
             \<inter> set (or_failed (fst (process_orders K db w))) = {})"
proof
  assume g: "get_kaspi_delivery K w = (batch, w1)"
  let ?s = "or_success (fst (process_orders K db w))"
  let ?f = "or_failed (fst (process_orders K db w))"
  have m: "mset ?s + mset ?f = mset (map o_id batch)"
    by (rule process_orders_mset[OF g])
  then have m': "mset (?s @ ?f) = mset (map o_id batch)" by simp
  have u: "set ?s \<union> set ?f = o_id ` set batch"
    using mset_eq_setD[OF m'] by simp
  have d: "set ?s \<inter> set ?f = {}" if "distinct (map o_id batch)"
  proof -
    from that m' have "distinct (?s @ ?f)"
      by (metis mset_eq_imp_distinct_iff)
    then show ?thesis by simp
  qed
  from m u d show "mset ?s + mset ?f = mset (map o_id batch)
     \<and> set ?s \<union> set ?f = o_id ` set batch
     \<and> (distinct (map o_id batch) \<longrightarrow> set ?s \<inter> set ?f = {})"
    by blast
qed

theorem process_orders_partitions_batch_witness:
  "get_kaspi_delivery kaspi_D1 0 = ([order_D1], 1)
   \<and> distinct (map o_id [order_D1])
   \<and> or_success (fst (process_orders kaspi_D1 (shop_db 10) 0)) = [Some ''D1'']
   \<and> mset (or_success (fst (process_orders kaspi_D1 (shop_db 10) 0)))
       + mset (or_failed (fst (process_orders kaspi_D1 (shop_db 10) 0)))
       = mset (map o_id [order_D1])
   \<and> set (or_success (fst (process_orders kaspi_D1 (shop_db 10) 0)))
       \<inter> set (or_failed (fst (process_orders kaspi_D1 (shop_db 10) 0))) = {}"
proof -
  have g: "get_kaspi_delivery kaspi_D1 0 = ([order_D1], 1)"
    by (simp add: kaspi_D1_def const_kaspi_def)
  have d: "distinct (map o_id [order_D1])"
    by simp
  have s: "or_success (fst (process_orders kaspi_D1 (shop_db 10) 0)) = [Some ''D1'']"
    by code_simp
  from process_orders_partitions_batch[of kaspi_D1 0 "[order_D1]" 1 "shop_db 10"] g d s
  show ?thesis by blast
qed

subsection \<open>Invoice flag and waybill\<close>

text \<open>
  C4 fails on the code. Order \<open>D1\<close> is fulfilled while the invoicing call fails, so it is
  recorded with \<open>invoice_generated = False\<close> and reported as failed. The next
  \<open>save_waybill_links\<close> finds a waybill on it in the feed, stores the waybill on its
  line item and sets \<open>invoice_generated\<close> to \<open>True\<close>: the flag is written, not read,
  although no invoicing call for the order has succeeded.
\<close>

theorem save_waybill_links_sets_invoice_flag:
  "process_single_order kaspi_no_invoice (shop_db 10) 0 order_D1_waybill = (False, shop_db_D1, 2)
   \<and> map ko_invoice_generated (kaspi_orders shop_db_D1) = [False]
   \<and> fst (save_waybill_links kaspi_no_invoice shop_db_D1 2) = [Some ''D1'']
   \<and> map ko_invoice_generated
         (kaspi_orders (fst (snd (save_waybill_links kaspi_no_invoice shop_db_D1 2)))) = [True]
   \<and> map ksp_waybill
         (kaspi_sold_products (fst (snd (save_waybill_links kaspi_no_invoice shop_db_D1 2))))
       = [Some ''WB1'']"
  by code_simp

subsection \<open>The location restored by a cancellation\<close>

lemma restore_call_location:
  "restore_call db product_code quantity order_id = Some (code, new_quantity, q, operation, sname)
   \<Longrightarrow> sname = stock_name_query db product_code \<and> code = product_code"
  unfolding restore_call_def Let_def
  by (auto split: option.splits if_splits)

text \<open>
  C6 fails on the code. Orders \<open>O1\<close> and \<open>O2\<close> both sold product \<open>P1\<close>, from
  \<open>PP1\<close> and from \<open>PP2\<close>. The query that resolves the location is given the
  product code only, so its rows are the locations of both orders. When the row of
  \<open>O1\<close> comes first, the cancellation of the line item of \<open>O2\<close> calls the stock
  update for \<open>PP1\<close>, with the quantity read at \<open>PP1\<close> plus two; when the rows come
  in the other order, the cancellation of the line item of \<open>O1\<close> calls it for
  \<open>PP2\<close>. Whichever row the database returns, one of the two orders is reversed at
  the location of the other.
\<close>

theorem cancellation_restores_other_orders_location:
  "map ko_stock_name (filter (\<lambda>ko. ko_order_id ko = ''O2'') (kaspi_orders two_locations_db))
     = [''PP2'']
   \<and> get_order_products two_locations_db ''O2'' = [(''P1'', 2, ''Phone'')]
   \<and> stock_name_rows two_locations_db ''P1'' = [''PP1'', ''PP2'']
   \<and> restore_call two_locations_db ''P1'' 2 ''O2'' = Some (''P1'', 6, 2, ''return'', Some ''PP1'')
   \<and> map ko_stock_name
         (filter (\<lambda>ko. ko_order_id ko = ''O1'') (kaspi_orders two_locations_db_rev)) = [''PP1'']
   \<and> get_order_products two_locations_db_rev ''O1'' = [(''P1'', 1, ''Phone'')]
   \<and> stock_name_rows two_locations_db_rev ''P1'' = [''PP2'', ''PP1'']
   \<and> restore_call two_locations_db_rev ''P1'' 1 ''O1''
       = Some (''P1'', 7, 1, ''return'', Some ''PP2'')"
  by code_simp

subsection \<open>Cancelling an order\<close>

lemma cancellation_inventory:
  assumes "process_product_cancellation db product_code quantity order_id = Inr db'"
  shows "stock_inventory db' = stock_inventory db"
  using cancellation_cases[OF assms] by auto

lemma cancel_products_inventory:
  "stock_inventory (snd (cancel_products db order_id rows)) = stock_inventory db"
proof (induction db order_id rows rule: cancel_products.induct)
  case (1 db order_id)
  then show ?case by simp
next
  case (2 db order_id product_code quantity product_name rest)
  then show ?case
    by (auto split: sum.splits dest: cancellation_inventory)
qed

lemma cancel_products_inventory':
  "cancel_products db order_id rows = (e, db1) \<Longrightarrow> stock_inventory db1 = stock_inventory db"
  using cancel_products_inventory[of db order_id rows] by simp

lemma cancel_single_order_inventory:
  "stock_inventory (cancel_single_order db ord) = stock_inventory db"
  unfolding cancel_single_order_def Let_def
  by (auto simp: mark_order_as_canceled_def split: option.splits prod.splits
      dest: cancel_products_inventory')

text \<open>
  C5 fails on the code. Order \<open>D1\<close> is recorded with one line item, three units of
  \<open>P1\<close>, of which seven are left at \<open>PP5\<close>. Its cancellation computes the restored
  quantity, ten, and hands it to \<open>update_stock_quantity_and_log\<close>, which assigns it in
  a session that is never committed: the stored quantity stays seven. The cancellation
  record is committed and the order is marked canceled, so the second call is a skip:
  after two calls the line item has been restored not once but never.
\<close>

theorem cancel_single_order_restores_nothing:
  "get_order_products sold_db_D1 ''D1'' = [(''P1'', 3, ''Phone'')]
   \<and> get_stock_quantity sold_db_D1 ''P1'' (Some ''PP5'') = 7
   \<and> \<not> is_order_canceled sold_db_D1 ''D1''
   \<and> restore_call sold_db_D1 ''P1'' 3 ''D1'' = Some (''P1'', 10, 3, ''return'', Some ''PP5'')
   \<and> update_stock_quantity_and_log sold_db_D1 ''P1'' 10 3 ''return'' (Some ''PP5'')
       = Inr sold_db_D1
   \<and> is_order_canceled (cancel_single_order sold_db_D1 order_D1) ''D1''
   \<and> map kco_product_code (kaspi_canceled_orders (cancel_single_order sold_db_D1 order_D1))
       = [''P1'']
   \<and> get_stock_quantity (cancel_single_order sold_db_D1 order_D1) ''P1'' (Some ''PP5'') = 7
   \<and> cancel_single_order (cancel_single_order sold_db_D1 order_D1) order_D1
       = cancel_single_order sold_db_D1 order_D1"
  by code_simp

subsection \<open>The fulfilment loop and its interruption\<close>

lemma fulfillment_attempts_abort:
  assumes "attempt \<le> MAX_ATTEMPTS" "process_orders K db w = (r, db1, w1)" "or_success r = []"
    "cancel_orders_from_archive K db1 w1 = (cids, db2, w2)" "any_in ids cids"
  shows "fulfillment_attempts K ids attempt db w
           = (Return, [ProcessOrdersAttempt attempt r, CancelArchiveAttempt attempt cids,
                       CanceledByCustomer], db2, w2)"
  using assms by (simp add: fulfillment_attempts.simps[of K ids attempt db w])

lemma fulfillment_attempts_events:
  "(fst (fulfillment_attempts K ids attempt db w) = Return
      \<and> (\<exists>pre. fst (snd (fulfillment_attempts K ids attempt db w)) = pre @ [CanceledByCustomer]
            \<and> CanceledByCustomer \<notin> set pre))
   \<or> (fst (fulfillment_attempts K ids attempt db w) \<noteq> Return
      \<and> CanceledByCustomer \<notin> set (fst (snd (fulfillment_attempts K ids attempt db w))))"
proof (induction K ids attempt db w rule: fulfillment_attempts.induct)
  case (1 K ids attempt db w)
  show ?case
  proof (cases "attempt \<le> MAX_ATTEMPTS")
    case False
    then show ?thesis by (simp add: fulfillment_attempts.simps[of K ids attempt db w])
  next
    case True
    obtain r db1 w1 where p: "process_orders K db w = (r, db1, w1)"
      by (cases "process_orders K db w") auto
    obtain cids db2 w2 where c: "cancel_orders_from_archive K db1 w1 = (cids, db2, w2)"
      by (cases "cancel_orders_from_archive K db1 w1") auto
    show ?thesis
    proof (cases "or_success r \<noteq> []")
      case True
      with \<open>attempt \<le> MAX_ATTEMPTS\<close> p show ?thesis
        by (simp add: fulfillment_attempts.simps[of K ids attempt db w])
    next
      case False
      note ns = this
      show ?thesis
      proof (cases "any_in ids cids")
        case True
        with ns \<open>attempt \<le> MAX_ATTEMPTS\<close> p c show ?thesis
          by (simp add: fulfillment_attempts.simps[of K ids attempt db w])
      next
        case False
        obtain x evs db3 w3 where
          n: "fulfillment_attempts K ids (attempt + 1) db2 w2 = (x, evs, db3, w3)"
          by (cases "fulfillment_attempts K ids (attempt + 1) db2 w2") auto
        from "1.IH"[OF \<open>attempt \<le> MAX_ATTEMPTS\<close> p[symmetric] refl _ c[symmetric] refl False] ns n
        have ih: "(x = Return \<and> (\<exists>pre. evs = pre @ [CanceledByCustomer]
                     \<and> CanceledByCustomer \<notin> set pre))
                  \<or> (x \<noteq> Return \<and> CanceledByCustomer \<notin> set evs)"
          by simp
        have u: "fulfillment_attempts K ids attempt db w
                   = (x, [ProcessOrdersAttempt attempt r, CancelArchiveAttempt attempt cids] @ evs,
                      db3, w3)"
          using False ns \<open>attempt \<le> MAX_ATTEMPTS\<close> p c n
          by (simp add: fulfillment_attempts.simps[of K ids attempt db w])
        from ih show ?thesis
        proof
          assume "x = Return \<and> (\<exists>pre. evs = pre @ [CanceledByCustomer]
                     \<and> CanceledByCustomer \<notin> set pre)"
          then obtain pre where "x = Return" "evs = pre @ [CanceledByCustomer]"
            "CanceledByCustomer \<notin> set pre" by blast
          then have "fst (snd (fulfillment_attempts K ids attempt db w))
              = ([ProcessOrdersAttempt attempt r, CancelArchiveAttempt attempt cids] @ pre)
                  @ [CanceledByCustomer]
              \<and> CanceledByCustomer
                  \<notin> set ([ProcessOrdersAttempt attempt r, CancelArchiveAttempt attempt cids] @ pre)"
            using u by simp
          with \<open>x = Return\<close> u show ?thesis by (metis fst_conv)
        next
          assume "x \<noteq> Return \<and> CanceledByCustomer \<notin> set evs"
          with u show ?thesis by simp
        qed
      qed
    qed
  qed
qed

lemma waybill_attempts_events:
  "CanceledByCustomer \<notin> set (fst (snd (waybill_attempts K ids attempt db w)))"
proof (induction K ids attempt db w rule: waybill_attempts.induct)
  case (1 K ids attempt db w)
  show ?case
  proof (cases "attempt \<le> MAX_ATTEMPTS")
    case False
    then show ?thesis by (simp add: waybill_attempts.simps[of K ids attempt db w])
  next
    case True
    obtain r db1 w1 where p: "save_waybill_links K db w = (r, db1, w1)"
      by (cases "save_waybill_links K db w") auto
    obtain cids db2 w2 where c: "cancel_orders_from_archive K db1 w1 = (cids, db2, w2)"
      by (cases "cancel_orders_from_archive K db1 w1") auto
    show ?thesis
    proof (cases "\<exists>order_id \<in> set ids. Some order_id \<in> set r")
      case True
      with \<open>attempt \<le> MAX_ATTEMPTS\<close> p show ?thesis
        by (simp add: waybill_attempts.simps[of K ids attempt db w])
    next
      case False
      note ns = this
      show ?thesis
      proof (cases "any_in ids cids")
        case True
        with ns \<open>attempt \<le> MAX_ATTEMPTS\<close> p c show ?thesis
          by (simp add: waybill_attempts.simps[of K ids attempt db w])
      next
        case False
        obtain x evs db3 w3 where
          n: "waybill_attempts K ids (attempt + 1) db2 w2 = (x, evs, db3, w3)"
          by (cases "waybill_attempts K ids (attempt + 1) db2 w2") auto
        from "1.IH"[OF \<open>attempt \<le> MAX_ATTEMPTS\<close> p[symmetric] refl ns c[symmetric] refl False] n
        have "CanceledByCustomer \<notin> set evs" by simp
        with False ns \<open>attempt \<le> MAX_ATTEMPTS\<close> p c n show ?thesis
          by (simp add: waybill_attempts.simps[of K ids attempt db w])
      qed
    qed
  qed
qed

lemma split_at_unique:
  assumes "xs @ c # ys = as @ c # bs" "c \<notin> set as" "c \<notin> set bs"
  shows "ys = bs"
  using assms
proof (induction xs arbitrary: as)
  case Nil
  then show ?case by (cases as) auto
next
  case (Cons x xs)
  then show ?case by (cases as) auto
qed


lemma main_after_abort:
  assumes "fst (main K db w) = xs @ CanceledByCustomer # ys"
  shows "ys = [ScriptFinished]"
proof -
  obtain rids db1 w1 where a: "cancel_orders_from_returned_archive K db w = (rids, db1, w1)"
    by (cases "cancel_orders_from_returned_archive K db w") auto
  obtain aids db2 w2 where b: "cancel_orders_from_archive K db1 w1 = (aids, db2, w2)"
    by (cases "cancel_orders_from_archive K db1 w1") auto
  obtain r w3 where c: "process_new_orders K w2 = (r, w3)"
    by (cases "process_new_orders K w2") auto
  obtain x1 e1 db3 w4 where
    d: "fulfillment_attempts K (remdups (nr_success r)) 1 db2 w3 = (x1, e1, db3, w4)"
    by (cases "fulfillment_attempts K (remdups (nr_success r)) 1 db2 w3") auto
  obtain x2 e2 db4 w5 where
    e: "waybill_attempts K (remdups (nr_success r)) 1 db3 w4 = (x2, e2, db4, w5)"
    by (cases "waybill_attempts K (remdups (nr_success r)) 1 db3 w4") auto
  have in_evs: "CanceledByCustomer \<in> set (fst (main K db w))"
    using assms by simp
  have e2: "CanceledByCustomer \<notin> set e2"
    using waybill_attempts_events[of K "remdups (nr_success r)" 1 db3 w4] e by simp
  have e1: "(x1 = Return \<and> (\<exists>pre. e1 = pre @ [CanceledByCustomer] \<and> CanceledByCustomer \<notin> set pre))
            \<or> (x1 \<noteq> Return \<and> CanceledByCustomer \<notin> set e1)"
    using fulfillment_attempts_events[of K "remdups (nr_success r)" 1 db2 w3] d by simp
  show ?thesis
  proof (cases "nr_failed r \<noteq> [] \<or> nr_success r = []")
    case True
    with a b c have "CanceledByCustomer \<notin> set (fst (main K db w))"
      by (auto simp: main_def)
    with in_evs show ?thesis by simp
  next
    case False
    show ?thesis
    proof (cases "x1 = Return")
      case True
      with e1 obtain pre where pre: "e1 = pre @ [CanceledByCustomer]" "CanceledByCustomer \<notin> set pre"
        by blast
      from False True a b c d pre
      have "fst (main K db w)
              = ([ScriptStarted, NewOrdersResult r] @ pre) @ CanceledByCustomer # [ScriptFinished]"
        by (simp add: main_def Let_def)
      with assms have "xs @ CanceledByCustomer # ys
              = ([ScriptStarted, NewOrdersResult r] @ pre) @ CanceledByCustomer # [ScriptFinished]"
        by simp
      from split_at_unique[OF this] pre(2) show ?thesis
        by simp
    next
      case nr: False
      with e1 have "CanceledByCustomer \<notin> set e1" by blast
      with False nr a b c d e e2 have "CanceledByCustomer \<notin> set (fst (main K db w))"
        by (simp add: main_def Let_def)
      with in_evs show ?thesis by simp
    qed
  qed
qed

text \<open>
  C8: in the fulfilment loop, an attempt without any success is followed by the archive
  pass, and when an accepted order id is among the ids that pass returns, the loop ends
  the run at once; in every run, the message that reports this interruption is followed
  by nothing but the closing message, so no fulfilment or waybill attempt comes after
  it.
\<close>

theorem cancellation_aborts_fulfilment_attempts:
  "(attempt \<le> MAX_ATTEMPTS \<and> process_orders K db w = (r, db1, w1) \<and> or_success r = []
      \<and> cancel_orders_from_archive K db1 w1 = (cids, db2, w2) \<and> any_in ids cids
    \<longrightarrow> fulfillment_attempts K ids attempt db w
          = (Return, [ProcessOrdersAttempt attempt r, CancelArchiveAttempt attempt cids,
                      CanceledByCustomer], db2, w2))
   \<and> (fst (main K db0 w0) = xs @ CanceledByCustomer # ys \<longrightarrow> ys = [ScriptFinished])"
  using fulfillment_attempts_abort[of attempt K db w r db1 w1 cids db2 w2 ids]
    main_after_abort[of K db0 w0 xs ys]
  by blast

theorem cancellation_aborts_fulfilment_attempts_witness:
  "1 \<le> MAX_ATTEMPTS
   \<and> process_orders kaspi_canceled (shop_db 10) 4 = (failed_D1, shop_db 10, 6)
   \<and> or_success failed_D1 = []
   \<and> cancel_orders_from_archive kaspi_canceled (shop_db 10) 6 = ([''D1''], shop_db 10, 7)
   \<and> any_in [''D1''] [''D1'']
   \<and> fulfillment_attempts kaspi_canceled [''D1''] 1 (shop_db 10) 4
       = (Return, [ProcessOrdersAttempt 1 failed_D1, CancelArchiveAttempt 1 [''D1''],
                   CanceledByCustomer], shop_db 10, 7)
   \<and> fst (main kaspi_canceled (shop_db 10) 0)
       = [ScriptStarted, NewOrdersResult accepted_D1, ProcessOrdersAttempt 1 failed_D1,
          CancelArchiveAttempt 1 [''D1'']] @ CanceledByCustomer # [ScriptFinished]"
proof -
  have a: "1 \<le> MAX_ATTEMPTS"
    by (simp add: MAX_ATTEMPTS_def)
  have b: "process_orders kaspi_canceled (shop_db 10) 4 = (failed_D1, shop_db 10, 6)"
    by code_simp
  have c: "or_success failed_D1 = []"
    by (simp add: failed_D1_def)
  have d: "cancel_orders_from_archive kaspi_canceled (shop_db 10) 6 = ([''D1''], shop_db 10, 7)"
    by code_simp
  have e: "any_in [''D1''] [''D1'']"
    by (simp add: any_in_def)
  have m: "fst (main kaspi_canceled (shop_db 10) 0)
       = [ScriptStarted, NewOrdersResult accepted_D1, ProcessOrdersAttempt 1 failed_D1,
          CancelArchiveAttempt 1 [''D1'']] @ CanceledByCustomer # [ScriptFinished]"
    by code_simp
  note t = cancellation_aborts_fulfilment_attempts
             [of 1 kaspi_canceled "shop_db 10" 4 failed_D1 "shop_db 10" 6 "[''D1'']" "shop_db 10" 7
                 "[''D1'']" "shop_db 10" 0
                 "[ScriptStarted, NewOrdersResult accepted_D1, ProcessOrdersAttempt 1 failed_D1,
                   CancelArchiveAttempt 1 [''D1'']]" "[ScriptFinished]"]
  from t a b c d e
  have "fulfillment_attempts kaspi_canceled [''D1''] 1 (shop_db 10) 4
       = (Return, [ProcessOrdersAttempt 1 failed_D1, CancelArchiveAttempt 1 [''D1''],
                   CanceledByCustomer], shop_db 10, 7)"
    by blast
  with a b c d e m show ?thesis by blast
qed

subsection \<open>A failed acceptance\<close>














end
